theory Spec2Isabelle
  imports Complex_Main "HOL-Library.List_Lexorder" "HOL-Library.Char_ord"
begin

section \<open>Data model of the SpaceFOM physical entity\<close>

text \<open>
  The C++ sources store every numeric quantity in a \<^verbatim>\<open>double\<close>. A finite
  double is a real number, and the type of the model is \<^typ>\<open>real\<close>. Copying
  such a value and comparing two of them with \<^verbatim>\<open><\<close> are exact. The one sum and
  the one difference of doubles that the modelled functions compute are rounded by
  the machine; they are parameters of the model (\<open>double_add\<close> and
  \<open>double_sub\<close> below), of which nothing is assumed.
  A three-element array \<^verbatim>\<open>double v[3]\<close> is a value of type \<open>vec3\<close>, read and
  written by index as the loops of the source do. The loops of the source only use
  the indices 0, 1 and 2; an index beyond 2 (undefined behaviour in C++) reads
  the last component and writes nothing.
\<close>

datatype vec3 = Vec3 real real real

fun vget :: "vec3 \<Rightarrow> nat \<Rightarrow> real" where
  "vget (Vec3 x y z) i = (if i = 0 then x else if i = 1 then y else z)"

fun vset :: "vec3 \<Rightarrow> nat \<Rightarrow> real \<Rightarrow> vec3" where
  "vset (Vec3 x y z) i v =
     (if i = 0 then Vec3 v y z
      else if i = 1 then Vec3 x v z
      else if i = 2 then Vec3 x y v
      else Vec3 x y z)"

text \<open>
  \<^verbatim>\<open>for ( iinc = 0; iinc < 3; ++iinc ) { dst[iinc] = src[iinc]; }\<close>
\<close>

definition copy_vec3 :: "vec3 \<Rightarrow> vec3 \<Rightarrow> vec3" where
  "copy_vec3 dst src = fold (\<lambda>iinc d. vset d iinc (vget src iinc)) [0, 1, 2] dst"

record QuaternionData =
  scalar :: real
  vector :: vec3

record SpaceTimeCoordinateData =
  pos :: vec3
  vel :: vec3
  quat :: QuaternionData
  ang_vel :: vec3
  time :: real

text \<open>
  \<^verbatim>\<open>PhysicalEntityData\<close> is the type of both the working data
  (\<^verbatim>\<open>*physical_data\<close>) and the packing data (\<^verbatim>\<open>pe_packing_data\<close>). The four
  identity strings are \<^verbatim>\<open>char *\<close>; \<open>None\<close> is the NULL pointer. Strings are
  held by value: \<^verbatim>\<open>mm_strdup\<close> yields a fresh copy and \<^verbatim>\<open>delete_var\<close> releases
  the old one, so no two fields share storage.
\<close>

record PhysicalEntityData =
  name :: "string option"
  type :: "string option"
  status :: "string option"
  parent_frame :: "string option"
  state :: SpaceTimeCoordinateData
  accel :: vec3
  rot_accel :: vec3
  cm :: vec3
  body_wrt_struct :: QuaternionData

text \<open>
  Modelled from the spec: the class \<^verbatim>\<open>TrickHLA::Attribute\<close> is not among the
  sources. The spec gives it three flags per field (locally owned, changed since the
  last send, received this cycle); \<^verbatim>\<open>is_received()\<close> and \<^verbatim>\<open>is_changed()\<close>
  read the last two.
\<close>

record Attribute =
  locally_owned :: bool
  changed_since_send :: bool
  received_this_cycle :: bool

definition is_received :: "Attribute \<Rightarrow> bool" where
  "is_received a = received_this_cycle a"

definition is_changed :: "Attribute \<Rightarrow> bool" where
  "is_changed a = changed_since_send a"

text \<open>
  The object \<^verbatim>\<open>SpaceFOM::PhysicalEntity\<close>: the pointer to the working data (NULL
  until \<^verbatim>\<open>initialize\<close> binds it), the packing data, and the attributes its
  unpack function consults. A derived class is an extension of this record, and the
  member functions below are defined on every such extension.
\<close>

record PhysicalEntity =
  physical_data :: "PhysicalEntityData option"
  pe_packing_data :: PhysicalEntityData
  state_attr :: Attribute
  name_attr :: Attribute
  type_attr :: Attribute
  status_attr :: Attribute
  parent_frame_attr :: Attribute
  body_frame_attr :: Attribute

text \<open>
  Every way a call can end other than by returning: the calls of
  \<^verbatim>\<open>DebugHandler::terminate_with_message\<close>, one constructor per call site, and
  the dereference of a NULL pointer (by \<^verbatim>\<open>strcmp\<close>, \<^verbatim>\<open>mm_strdup\<close>,
  \<^verbatim>\<open>p[0]\<close> or \<^verbatim>\<open>physical_data->\<close>), which the sources do not guard against.
\<close>

datatype error =
  Null_PhysicalEntityData
  | Null_name
  | Null_parent_frame
  | Tolerance_not_less_than_dt real real
  | Null_dereference

section \<open>String primitives\<close>

text \<open>
  \<^verbatim>\<open>strcmp\<close> yields 0 for equal strings and a negative or positive number by the
  lexicographic order of the bytes otherwise.
\<close>

definition strcmp :: "string \<Rightarrow> string \<Rightarrow> int" where
  "strcmp a b = (if a = b then 0 else if a < b then - 1 else 1)"

text \<open>\<^verbatim>\<open>strcmp\<close> on pointers: either argument being NULL is a fault.\<close>

definition strcmp_ptr :: "string option \<Rightarrow> string option \<Rightarrow> error + int" where
  "strcmp_ptr p q =
     (case p of None \<Rightarrow> Inl Null_dereference
      | Some a \<Rightarrow> (case q of None \<Rightarrow> Inl Null_dereference | Some b \<Rightarrow> Inr (strcmp a b)))"

text \<open>\<^verbatim>\<open>trick_MM->mm_strdup( p )\<close> measures its argument and copies it.\<close>

definition mm_strdup :: "string option \<Rightarrow> error + string option" where
  "mm_strdup p = (case p of None \<Rightarrow> Inl Null_dereference | Some a \<Rightarrow> Inr (Some a))"

text \<open>Sequencing of steps that may fail: the first failure ends the call.\<close>

definition bind_result :: "error + 'a \<Rightarrow> ('a \<Rightarrow> error + 'b) \<Rightarrow> error + 'b" where
  "bind_result r f = (case r of Inl e \<Rightarrow> Inl e | Inr x \<Rightarrow> f x)"

section \<open>PhysicalEntity: pack and unpack\<close>

text \<open>
  \<^verbatim>\<open>physical_data->\<close>: a step that reads or writes the working data faults on a
  NULL pointer, and otherwise stores what the step computes.
\<close>

definition update_working ::
  "'a PhysicalEntity_scheme \<Rightarrow> (PhysicalEntityData \<Rightarrow> error + PhysicalEntityData)
     \<Rightarrow> error + 'a PhysicalEntity_scheme" where
  "update_working e f =
     (case physical_data e of
        None \<Rightarrow> Inl Null_dereference
      | Some w \<Rightarrow> bind_result (f w) (\<lambda>w'. Inr (e\<lparr>physical_data := Some w'\<rparr>)))"

subsection \<open>\<^verbatim>\<open>PhysicalEntity::pack_from_working_data\<close>\<close>

text \<open>
  The name and the parent frame (lines 136-146 and 183-196): a NULL working string
  terminates the run; otherwise the packing string is replaced when \<^verbatim>\<open>strcmp\<close>
  reports a difference. The packing string is handed to \<^verbatim>\<open>strcmp\<close> unchecked.
\<close>

definition pack_required_string ::
  "error \<Rightarrow> string option \<Rightarrow> string option \<Rightarrow> error + string option" where
  "pack_required_string fatal w p =
     (case w of
        None \<Rightarrow> Inl fatal
      | Some a \<Rightarrow>
          bind_result (strcmp_ptr (Some a) p)
            (\<lambda>c. if c \<noteq> 0 then mm_strdup (Some a) else Inr p))"

text \<open>The type and the status (lines 149-180): both sides may be NULL.\<close>

definition pack_optional_string :: "string option \<Rightarrow> string option \<Rightarrow> error + string option" where
  "pack_optional_string w p =
     (case w of
        Some a \<Rightarrow>
          (case p of
             Some b \<Rightarrow>
               bind_result (strcmp_ptr (Some a) (Some b))
                 (\<lambda>c. if c \<noteq> 0 then mm_strdup (Some a) else Inr p)
           | None \<Rightarrow> mm_strdup (Some a))
      | None \<Rightarrow> (if p \<noteq> None then Inr None else Inr p))"

text \<open>Lines 198-233: the numeric fields, and the time tag from the scenario time.\<close>

definition pack_numeric ::
  "real \<Rightarrow> PhysicalEntityData \<Rightarrow> PhysicalEntityData \<Rightarrow> PhysicalEntityData" where
  "pack_numeric scenario_time w p =
     p\<lparr>state := (state p)
          \<lparr>pos := copy_vec3 (pos (state p)) (pos (state w)),
           vel := copy_vec3 (vel (state p)) (vel (state w)),
           quat := (quat (state p))
             \<lparr>scalar := scalar (quat (state w)),
              vector := copy_vec3 (vector (quat (state p))) (vector (quat (state w)))\<rparr>,
           ang_vel := copy_vec3 (ang_vel (state p)) (ang_vel (state w)),
           time := scenario_time\<rparr>,
       accel := copy_vec3 (accel p) (accel w),
       rot_accel := copy_vec3 (rot_accel p) (rot_accel w),
       cm := copy_vec3 (cm p) (cm w),
       body_wrt_struct := (body_wrt_struct p)
         \<lparr>scalar := scalar (body_wrt_struct w),
          vector := copy_vec3 (vector (body_wrt_struct p)) (vector (body_wrt_struct w))\<rparr>\<rparr>"

text \<open>
  The whole function. Its first argument is what \<^verbatim>\<open>get_scenario_time()\<close>
  returns during the call. No attribute is consulted.
\<close>

definition pack_from_working_data ::
  "real \<Rightarrow> 'a PhysicalEntity_scheme \<Rightarrow> error + 'a PhysicalEntity_scheme" where
  "pack_from_working_data scenario_time e =
     (case physical_data e of
        None \<Rightarrow> Inl Null_dereference
      | Some w \<Rightarrow>
          bind_result (pack_required_string Null_name (name w) (name (pe_packing_data e)))
            (\<lambda>n.
          bind_result (pack_optional_string (type w) (type (pe_packing_data e)))
            (\<lambda>ty.
          bind_result (pack_optional_string (status w) (status (pe_packing_data e)))
            (\<lambda>st.
          bind_result
            (pack_required_string Null_parent_frame (parent_frame w)
               (parent_frame (pe_packing_data e)))
            (\<lambda>pf.
          Inr (e\<lparr>pe_packing_data :=
                 pack_numeric scenario_time w
                   ((pe_packing_data e)
                      \<lparr>name := n, type := ty, status := st, parent_frame := pf\<rparr>)\<rparr>))))))"

subsection \<open>\<^verbatim>\<open>PhysicalEntity::unpack_into_working_data\<close>\<close>

text \<open>Lines 260-273: the space-time coordinate state, with its time tag.\<close>

definition unpack_state :: "PhysicalEntityData \<Rightarrow> PhysicalEntityData \<Rightarrow> PhysicalEntityData" where
  "unpack_state p w =
     w\<lparr>state := (state w)
          \<lparr>pos := copy_vec3 (pos (state w)) (pos (state p)),
           vel := copy_vec3 (vel (state w)) (vel (state p)),
           quat := (quat (state w))
             \<lparr>scalar := scalar (quat (state p)),
              vector := copy_vec3 (vector (quat (state w))) (vector (quat (state p)))\<rparr>,
           ang_vel := copy_vec3 (ang_vel (state w)) (ang_vel (state p)),
           time := time (state p)\<rparr>\<rparr>"

text \<open>
  The name, the type and the status (lines 278-285, 289-296, 300-307) share one
  shape: a non-NULL working string is replaced when \<^verbatim>\<open>!strcmp( working, packing )\<close>
  holds, that is when the two strings are equal, and a NULL working string is
  replaced by a copy of the packing string.
\<close>

definition unpack_string :: "string option \<Rightarrow> string option \<Rightarrow> error + string option" where
  "unpack_string w p =
     (case w of
        Some a \<Rightarrow>
          bind_result (strcmp_ptr (Some a) p)
            (\<lambda>c. if c = 0 then mm_strdup p else Inr w)
      | None \<Rightarrow> mm_strdup p)"

text \<open>\<^verbatim>\<open>p[0] != '\0'\<close>: the packing string is not empty; a fault on NULL.\<close>

definition nonempty_ptr :: "string option \<Rightarrow> error + bool" where
  "nonempty_ptr p = (case p of None \<Rightarrow> Inl Null_dereference | Some a \<Rightarrow> Inr (a \<noteq> []))"

text \<open>The parent frame (lines 311-324).\<close>

definition unpack_parent_frame :: "string option \<Rightarrow> string option \<Rightarrow> error + string option" where
  "unpack_parent_frame w p =
     (case w of
        Some a \<Rightarrow>
          bind_result (strcmp_ptr (Some a) p)
            (\<lambda>c. if c = 0
                 then bind_result (nonempty_ptr p) (\<lambda>ne. if ne then mm_strdup p else Inr None)
                 else Inr w)
      | None \<Rightarrow> bind_result (nonempty_ptr p) (\<lambda>ne. if ne then mm_strdup p else Inr w))"

text \<open>Lines 331-334: the body to structural frame attitude.\<close>

definition unpack_body_frame :: "PhysicalEntityData \<Rightarrow> PhysicalEntityData \<Rightarrow> PhysicalEntityData" where
  "unpack_body_frame p w =
     w\<lparr>body_wrt_struct := (body_wrt_struct w)
         \<lparr>scalar := scalar (body_wrt_struct p),
          vector := copy_vec3 (vector (body_wrt_struct w)) (vector (body_wrt_struct p))\<rparr>\<rparr>"

text \<open>The six gated blocks of the function, in the order of the source.\<close>

definition unpack_state_step ::
  "'a PhysicalEntity_scheme \<Rightarrow> error + 'a PhysicalEntity_scheme" where
  "unpack_state_step e =
     (if is_received (state_attr e)
      then update_working e (\<lambda>w. Inr (unpack_state (pe_packing_data e) w))
      else Inr e)"

definition unpack_name_step ::
  "'a PhysicalEntity_scheme \<Rightarrow> error + 'a PhysicalEntity_scheme" where
  "unpack_name_step e =
     (if is_received (name_attr e)
      then update_working e
        (\<lambda>w. bind_result (unpack_string (name w) (name (pe_packing_data e)))
               (\<lambda>n. Inr (w\<lparr>name := n\<rparr>)))
      else Inr e)"

definition unpack_type_step ::
  "'a PhysicalEntity_scheme \<Rightarrow> error + 'a PhysicalEntity_scheme" where
  "unpack_type_step e =
     (if is_received (type_attr e)
      then update_working e
        (\<lambda>w. bind_result (unpack_string (type w) (type (pe_packing_data e)))
               (\<lambda>n. Inr (w\<lparr>type := n\<rparr>)))
      else Inr e)"

definition unpack_status_step ::
  "'a PhysicalEntity_scheme \<Rightarrow> error + 'a PhysicalEntity_scheme" where
  "unpack_status_step e =
     (if is_received (status_attr e)
      then update_working e
        (\<lambda>w. bind_result (unpack_string (status w) (status (pe_packing_data e)))
               (\<lambda>n. Inr (w\<lparr>status := n\<rparr>)))
      else Inr e)"

definition unpack_parent_frame_step ::
  "'a PhysicalEntity_scheme \<Rightarrow> error + 'a PhysicalEntity_scheme" where
  "unpack_parent_frame_step e =
     (if is_received (parent_frame_attr e)
      then update_working e
        (\<lambda>w. bind_result
               (unpack_parent_frame (parent_frame w) (parent_frame (pe_packing_data e)))
               (\<lambda>n. Inr (w\<lparr>parent_frame := n\<rparr>)))
      else Inr e)"

definition unpack_body_frame_step ::
  "'a PhysicalEntity_scheme \<Rightarrow> error + 'a PhysicalEntity_scheme" where
  "unpack_body_frame_step e =
     (if is_received (body_frame_attr e)
      then update_working e (\<lambda>w. Inr (unpack_body_frame (pe_packing_data e) w))
      else Inr e)"

definition unpack_into_working_data ::
  "'a PhysicalEntity_scheme \<Rightarrow> error + 'a PhysicalEntity_scheme" where
  "unpack_into_working_data e =
     bind_result (unpack_state_step e) (\<lambda>e1.
     bind_result (unpack_name_step e1) (\<lambda>e2.
     bind_result (unpack_type_step e2) (\<lambda>e3.
     bind_result (unpack_status_step e3) (\<lambda>e4.
     bind_result (unpack_parent_frame_step e4) unpack_body_frame_step))))"

section \<open>DynamicalEntityLagCompBase: latency compensation\<close>

text \<open>A \<^verbatim>\<open>double m[3][3]\<close> is three rows; the nested copy loops go row by row.\<close>

datatype mat33 = Mat33 vec3 vec3 vec3

fun mrow :: "mat33 \<Rightarrow> nat \<Rightarrow> vec3" where
  "mrow (Mat33 a b c) i = (if i = 0 then a else if i = 1 then b else c)"

fun mset_row :: "mat33 \<Rightarrow> nat \<Rightarrow> vec3 \<Rightarrow> mat33" where
  "mset_row (Mat33 a b c) i r =
     (if i = 0 then Mat33 r b c
      else if i = 1 then Mat33 a r c
      else if i = 2 then Mat33 a b r
      else Mat33 a b c)"

definition copy_mat33 :: "mat33 \<Rightarrow> mat33 \<Rightarrow> mat33" where
  "copy_mat33 dst src =
     fold (\<lambda>iinc d. mset_row d iinc (copy_vec3 (mrow d iinc) (mrow src iinc))) [0, 1, 2] dst"

text \<open>
  Modelled from the spec: the macro \<^verbatim>\<open>M_INIT\<close> of Trick's matrix macros is not
  among the sources; the spec and the comment at its call say that it sets the
  inverse to the zero matrix.
\<close>

definition M_INIT :: mat33 where
  "M_INIT = Mat33 (Vec3 0 0 0) (Vec3 0 0 0) (Vec3 0 0 0)"

text \<open>
  The packing data a dynamical entity adds (\<^verbatim>\<open>de_packing_data\<close>), and the entity
  itself: a physical entity with that data and the attributes of the added fields.
\<close>

record DynamicalEntityData =
  force :: vec3
  torque :: vec3
  mass :: real
  mass_rate :: real
  inertia :: mat33
  inertia_rate :: mat33

record DynamicalEntityBase = PhysicalEntity +
  de_packing_data :: DynamicalEntityData
  force_attr :: Attribute
  torque_attr :: Attribute
  mass_attr :: Attribute
  mass_rate_attr :: Attribute
  inertia_attr :: Attribute
  inertia_rate_attr :: Attribute

text \<open>
  The compensation object together with the entity it refers to (\<^verbatim>\<open>entity\<close> and
  \<^verbatim>\<open>de_entity\<close> are two references to the same object). Its attribute pointers
  are the entity's attributes, as \<^verbatim>\<open>initialize_callback\<close> sets them. The record
  \<^verbatim>\<open>lag_comp_data\<close> holds the state being compensated; the field the source
  reads as \<^verbatim>\<open>lag_comp_data.att\<close> is the attitude quaternion \<open>quat\<close>. The
  flag \<^verbatim>\<open>debug\<close> only selects printing and is left out, as is all printing to
  \<^verbatim>\<open>cout\<close>.
\<close>

record DynamicalEntityLagCompBase =
  de_entity :: DynamicalEntityBase
  lag_comp_data :: SpaceTimeCoordinateData
  Q_dot :: QuaternionData
  compensate_dt :: real
  force :: vec3
  torque :: vec3
  mass :: real
  mass_rate :: real
  inertia :: mat33
  inertia_rate :: mat33
  inertia_inv :: mat33

text \<open>
  What the two callbacks call and the sources do not contain, taken as parameters:
  the executive's scenario time and lookahead, \<^verbatim>\<open>entity.get_time()\<close>, the
  entity's virtual pack and unpack functions, the base class's
  \<^verbatim>\<open>PhysicalEntityLagCompBase::load_lag_comp_data\<close> and
  \<^verbatim>\<open>unload_lag_comp_data\<close>, \<^verbatim>\<open>Q_dot.derivative_first\<close> (the new value of
  \<^verbatim>\<open>Q_dot\<close> from an attitude and an angular velocity), the virtual
  \<^verbatim>\<open>compensate\<close>, and Trick's \<^verbatim>\<open>dm_invert_symm\<close> with its success code
  \<^verbatim>\<open>TM_SUCCESS\<close> (from the old inverse and the matrix: the return code and what
  the inverse then holds). The last two parameters are the machine's \<^verbatim>\<open>+\<close> and
  \<^verbatim>\<open>-\<close> on doubles: the rounded sum and the rounded difference.
\<close>

record externals =
  get_scenario_time :: real
  get_lookahead :: real
  get_time :: "DynamicalEntityBase \<Rightarrow> real"
  entity_pack_from_working_data :: "DynamicalEntityBase \<Rightarrow> error + DynamicalEntityBase"
  entity_unpack_into_working_data :: "DynamicalEntityBase \<Rightarrow> error + DynamicalEntityBase"
  base_load_lag_comp_data :: "DynamicalEntityLagCompBase \<Rightarrow> DynamicalEntityLagCompBase"
  base_unload_lag_comp_data :: "DynamicalEntityLagCompBase \<Rightarrow> DynamicalEntityLagCompBase"
  derivative_first :: "QuaternionData \<Rightarrow> vec3 \<Rightarrow> QuaternionData"
  compensate :: "real \<Rightarrow> real \<Rightarrow> DynamicalEntityLagCompBase \<Rightarrow> DynamicalEntityLagCompBase"
  dm_invert_symm :: "mat33 \<Rightarrow> mat33 \<Rightarrow> int \<times> mat33"
  TM_SUCCESS :: int
  double_add :: "real \<Rightarrow> real \<Rightarrow> real"
  double_sub :: "real \<Rightarrow> real \<Rightarrow> real"

text \<open>
  What a callback does to the world outside its object, in order: a call of
  \<^verbatim>\<open>compensate\<close> with its two times, a call of \<^verbatim>\<open>dm_invert_symm\<close> on a
  matrix, and the error message sent with \<^verbatim>\<open>send_hs\<close>.
\<close>

datatype event =
  Compensate real real
  | Invert_inertia mat33
  | Report_singular_inertia

text \<open>Lines 325-343.\<close>

definition load_lag_comp_data ::
  "externals \<Rightarrow> DynamicalEntityLagCompBase \<Rightarrow> DynamicalEntityLagCompBase" where
  "load_lag_comp_data X s =
     (let a = base_load_lag_comp_data X s;
          p = de_packing_data (de_entity a)
      in a\<lparr>mass := DynamicalEntityData.mass p,
           mass_rate := DynamicalEntityData.mass_rate p,
           force := copy_vec3 (force a) (DynamicalEntityData.force p),
           torque := copy_vec3 (torque a) (DynamicalEntityData.torque p),
           inertia := copy_mat33 (inertia a) (DynamicalEntityData.inertia p),
           inertia_rate := copy_mat33 (inertia_rate a) (DynamicalEntityData.inertia_rate p)\<rparr>)"

text \<open>Lines 300-319.\<close>

definition unload_lag_comp_data ::
  "externals \<Rightarrow> DynamicalEntityLagCompBase \<Rightarrow> DynamicalEntityLagCompBase" where
  "unload_lag_comp_data X s =
     (let a = base_unload_lag_comp_data X s;
          p = de_packing_data (de_entity a)
      in a\<lparr>de_entity := (de_entity a)\<lparr>de_packing_data :=
           p\<lparr>DynamicalEntityData.mass := mass a,
             DynamicalEntityData.mass_rate := mass_rate a,
             DynamicalEntityData.force := copy_vec3 (DynamicalEntityData.force p) (force a),
             DynamicalEntityData.torque := copy_vec3 (DynamicalEntityData.torque p) (torque a),
             DynamicalEntityData.inertia :=
               copy_mat33 (DynamicalEntityData.inertia p) (inertia a),
             DynamicalEntityData.inertia_rate :=
               copy_mat33 (DynamicalEntityData.inertia_rate p) (inertia_rate a)\<rparr>\<rparr>\<rparr>)"

text \<open>
  \<^verbatim>\<open>load_lag_comp_data(); Q_dot.derivative_first( lag_comp_data.att,
  lag_comp_data.ang_vel );\<close> (lines 169-171 and 221-223).
\<close>

definition load_and_differentiate ::
  "externals \<Rightarrow> DynamicalEntityLagCompBase \<Rightarrow> DynamicalEntityLagCompBase" where
  "load_and_differentiate X s =
     (let a = load_lag_comp_data X s
      in a\<lparr>Q_dot := derivative_first X (quat (lag_comp_data a)) (ang_vel (lag_comp_data a))\<rparr>)"

text \<open>Lines 218-247 of the receive callback: the compensation, gated by the state attribute.\<close>

definition receive_compensate_step ::
  "externals \<Rightarrow> real \<Rightarrow> real \<Rightarrow> DynamicalEntityLagCompBase
     \<Rightarrow> DynamicalEntityLagCompBase \<times> event list" where
  "receive_compensate_step X data_t end_t s =
     (if is_received (state_attr (de_entity s))
      then (compensate X data_t end_t (load_and_differentiate X s), [Compensate data_t end_t])
      else (s, []))"

text \<open>Lines 248-258: the inverse of the inertia matrix, gated by the inertia attribute.\<close>

definition receive_inertia_step ::
  "externals \<Rightarrow> DynamicalEntityLagCompBase \<Rightarrow> DynamicalEntityLagCompBase \<times> event list" where
  "receive_inertia_step X s =
     (if is_received (inertia_attr (de_entity s))
      then (case dm_invert_symm X (inertia_inv s) (inertia s) of
              (rc, inverse_written) \<Rightarrow>
                if rc \<noteq> TM_SUCCESS X
                then (s\<lparr>inertia_inv := M_INIT\<rparr>,
                      [Invert_inertia (inertia s), Report_singular_inertia])
                else (s\<lparr>inertia_inv := inverse_written\<rparr>, [Invert_inertia (inertia s)]))
      else (s, []))"

text \<open>\<^verbatim>\<open>DynamicalEntityLagCompBase::receive_lag_compensation\<close> (lines 198-268).\<close>

definition receive_lag_compensation ::
  "externals \<Rightarrow> DynamicalEntityLagCompBase
     \<Rightarrow> error + DynamicalEntityLagCompBase \<times> event list" where
  "receive_lag_compensation X s =
     (let end_t = get_scenario_time X;
          data_t = get_time X (de_entity s);
          s1 = s\<lparr>compensate_dt := double_sub X end_t data_t\<rparr>;
          (s2, tr1) = receive_compensate_step X data_t end_t s1;
          (s3, tr2) = receive_inertia_step X s2;
          s4 = unload_lag_comp_data X s3
      in bind_result (entity_unpack_into_working_data X (de_entity s4))
           (\<lambda>ent. Inr (s4\<lparr>de_entity := ent\<rparr>, tr1 @ tr2)))"

text \<open>\<^verbatim>\<open>DynamicalEntityLagCompBase::send_lag_compensation\<close> (lines 149-193).\<close>

definition send_lag_compensation ::
  "externals \<Rightarrow> DynamicalEntityLagCompBase
     \<Rightarrow> error + DynamicalEntityLagCompBase \<times> event list" where
  "send_lag_compensation X s =
     (let begin_t = get_scenario_time X;
          s1 = s\<lparr>compensate_dt := get_lookahead X\<rparr>;
          end_t = double_add X begin_t (compensate_dt s1)
      in bind_result (entity_pack_from_working_data X (de_entity s1))
           (\<lambda>ent.
              Inr (unload_lag_comp_data X
                     (compensate X begin_t end_t
                        (load_and_differentiate X (s1\<lparr>de_entity := ent\<rparr>))),
                   [Compensate begin_t end_t])))"

text \<open>The attribute records of an entity, all twelve.\<close>

definition ownership :: "DynamicalEntityBase \<Rightarrow> Attribute list" where
  "ownership e =
     [state_attr e, name_attr e, type_attr e, status_attr e, parent_frame_attr e,
      body_frame_attr e, force_attr e, torque_attr e, mass_attr e, mass_rate_attr e,
      inertia_attr e, inertia_rate_attr e]"

section \<open>Initialization\<close>

text \<open>
  \<^verbatim>\<open>PhysicalEntity::initialize()\<close> and
  \<^verbatim>\<open>PhysicalEntity::initialize( PhysicalEntityData * )\<close> (lines 79-119). The base
  class's \<^verbatim>\<open>PhysicalEntityBase::initialize\<close> is not among the sources and is a
  parameter.
\<close>

definition PhysicalEntity_initialize ::
  "('a PhysicalEntity_scheme \<Rightarrow> error + 'a PhysicalEntity_scheme)
     \<Rightarrow> 'a PhysicalEntity_scheme \<Rightarrow> error + 'a PhysicalEntity_scheme" where
  "PhysicalEntity_initialize base_initialize e =
     (if physical_data e = None then Inl Null_PhysicalEntityData else base_initialize e)"

definition PhysicalEntity_initialize_with ::
  "('a PhysicalEntity_scheme \<Rightarrow> error + 'a PhysicalEntity_scheme)
     \<Rightarrow> PhysicalEntityData option \<Rightarrow> 'a PhysicalEntity_scheme
     \<Rightarrow> error + 'a PhysicalEntity_scheme" where
  "PhysicalEntity_initialize_with base_initialize physical_data_ptr e =
     (if physical_data_ptr = None then Inl Null_PhysicalEntityData
      else PhysicalEntity_initialize base_initialize (e\<lparr>physical_data := physical_data_ptr\<rparr>))"

text \<open>
  \<^verbatim>\<open>PhysicalEntityLagCompInteg::initialize\<close> (lines 71-90). The step and the
  tolerance are members of \<^verbatim>\<open>TrickHLA::LagCompensationInteg\<close>; the base class's
  \<^verbatim>\<open>PhysicalEntityLagCompBase::initialize\<close> is a parameter.
\<close>

record LagCompensationInteg =
  integ_dt :: real
  integ_tol :: real

definition PhysicalEntityLagCompInteg_initialize ::
  "('a LagCompensationInteg_scheme \<Rightarrow> error + 'a LagCompensationInteg_scheme)
     \<Rightarrow> 'a LagCompensationInteg_scheme \<Rightarrow> error + 'a LagCompensationInteg_scheme" where
  "PhysicalEntityLagCompInteg_initialize base_initialize s =
     (if integ_dt s < integ_tol s
      then Inl (Tolerance_not_less_than_dt (integ_dt s) (integ_tol s))
      else base_initialize s)"

section \<open>Conditional\<close>

text \<open>
  \<^verbatim>\<open>Conditional::should_send( Attribute *attr )\<close> (lines 72-76). The pointer is
  never dereferenced; \<open>None\<close> is NULL.
\<close>

definition should_send :: "Attribute option \<Rightarrow> bool" where
  "should_send attr = True"

section \<open>Timed synchronization points\<close>

text \<open>
  Modelled from the spec: \<^verbatim>\<open>TimedSyncPntList.cpp\<close> is not among the sources, only
  the declarations of its header. Following the spec's registry contract, a point
  has a label, an optional target time and the mark of having been achieved; a point
  with a target time is ready once the current time has reached it, a point without
  one is ready once it is marked achieved; \<open>achieve_all\<close> marks every point
  achieved that is not yet marked and is eligible (its target time, if any, has been
  reached) and returns whether at least one point changed.
\<close>

record TimedSyncPnt =
  label :: string
  target_time :: "real option"
  achieved :: bool

definition point_ready :: "TimedSyncPnt \<Rightarrow> real \<Rightarrow> bool" where
  "point_ready p current_time =
     (case target_time p of Some t \<Rightarrow> current_time \<ge> t | None \<Rightarrow> achieved p)"

definition is_ready :: "TimedSyncPnt list \<Rightarrow> string \<Rightarrow> real \<Rightarrow> bool" where
  "is_ready pts l current_time =
     (case find (\<lambda>p. label p = l) pts of
        None \<Rightarrow> False
      | Some p \<Rightarrow> point_ready p current_time)"

definition eligible :: "TimedSyncPnt \<Rightarrow> real \<Rightarrow> bool" where
  "eligible p current_time =
     (\<not> achieved p \<and> (case target_time p of Some t \<Rightarrow> current_time \<ge> t | None \<Rightarrow> True))"

definition achieve_all :: "TimedSyncPnt list \<Rightarrow> real \<Rightarrow> TimedSyncPnt list \<times> bool" where
  "achieve_all pts current_time =
     (map (\<lambda>p. if eligible p current_time then p\<lparr>achieved := True\<rparr> else p) pts,
      list_ex (\<lambda>p. eligible p current_time) pts)"

text \<open>
  The header's inline overload (lines 92-96 of \<^verbatim>\<open>TimedSyncPntList.hh\<close>):
  \<^verbatim>\<open>Int64Time time( 0.0 ); return achieve_all_sync_pnts( rti_ambassador, time );\<close>
\<close>

definition achieve_all_sync_pnts :: "TimedSyncPnt list \<Rightarrow> TimedSyncPnt list \<times> bool" where
  "achieve_all_sync_pnts pts = achieve_all pts 0"

definition add_sync_pnt :: "TimedSyncPnt list \<Rightarrow> string \<Rightarrow> real option \<Rightarrow> TimedSyncPnt list" where
  "add_sync_pnt pts l t = pts @ [\<lparr>label = l, target_time = t, achieved = False\<rparr>]"

section \<open>Concrete inputs\<close>

text \<open>
  Inputs at which the theorems below are exercised: an attribute that was or was not
  received, a working record and a packing record that differ in every field, and
  entities built from them.
\<close>

definition attr :: "bool \<Rightarrow> Attribute" where
  "attr r = \<lparr>locally_owned = False, changed_since_send = r, received_this_cycle = r\<rparr>"

definition working_example :: PhysicalEntityData where
  "working_example =
     \<lparr>name = Some ''Lander'', type = Some ''vehicle'', status = Some ''active'',
      parent_frame = Some ''MoonCentricInertial'',
      state = \<lparr>pos = Vec3 1 2 3, vel = Vec3 4 5 6,
               quat = \<lparr>scalar = 1, vector = Vec3 0 0 0\<rparr>,
               ang_vel = Vec3 0 0 (1 / 2), time = 5\<rparr>,
      accel = Vec3 0 0 1, rot_accel = Vec3 0 1 0, cm = Vec3 (1 / 4) 0 0,
      body_wrt_struct = \<lparr>scalar = 1, vector = Vec3 0 0 0\<rparr>\<rparr>"

definition packing_example :: PhysicalEntityData where
  "packing_example =
     \<lparr>name = Some ''Orbiter'', type = Some [], status = Some ''docked'',
      parent_frame = Some [],
      state = \<lparr>pos = Vec3 10 20 30, vel = Vec3 7 8 9,
               quat = \<lparr>scalar = 0, vector = Vec3 1 0 0\<rparr>,
               ang_vel = Vec3 0 0 0, time = 9\<rparr>,
      accel = Vec3 2 2 2, rot_accel = Vec3 3 3 3, cm = Vec3 0 0 0,
      body_wrt_struct = \<lparr>scalar = 0, vector = Vec3 0 1 0\<rparr>\<rparr>"

text \<open>
  An entity whose state attribute, identity attributes and body frame attribute were
  received or not as the three flags say.
\<close>

definition entity_example :: "bool \<Rightarrow> bool \<Rightarrow> bool \<Rightarrow> PhysicalEntity" where
  "entity_example state_received identity_received body_received =
     \<lparr>physical_data = Some working_example, pe_packing_data = packing_example,
      state_attr = attr state_received, name_attr = attr identity_received,
      type_attr = attr identity_received, status_attr = attr identity_received,
      parent_frame_attr = attr identity_received, body_frame_attr = attr body_received\<rparr>"

text \<open>A symmetric matrix with determinant 0, and the identity.\<close>

definition singular_inertia :: mat33 where
  "singular_inertia = Mat33 (Vec3 1 1 0) (Vec3 1 1 0) (Vec3 0 0 1)"

definition identity_matrix :: mat33 where
  "identity_matrix = Mat33 (Vec3 1 0 0) (Vec3 0 1 0) (Vec3 0 0 1)"

definition de_entity_example :: "bool \<Rightarrow> bool \<Rightarrow> DynamicalEntityBase" where
  "de_entity_example state_received inertia_received =
     \<lparr>physical_data = Some working_example, pe_packing_data = packing_example,
      state_attr = attr state_received, name_attr = attr False,
      type_attr = attr False, status_attr = attr False,
      parent_frame_attr = attr False, body_frame_attr = attr False,
      de_packing_data =
        \<lparr>DynamicalEntityData.force = Vec3 0 0 0, DynamicalEntityData.torque = Vec3 0 0 1,
         DynamicalEntityData.mass = 100, DynamicalEntityData.mass_rate = 0,
         DynamicalEntityData.inertia = singular_inertia,
         DynamicalEntityData.inertia_rate = M_INIT\<rparr>,
      force_attr = attr False, torque_attr = attr False, mass_attr = attr False,
      mass_rate_attr = attr False, inertia_attr = attr inertia_received,
      inertia_rate_attr = attr False\<rparr>"

text \<open>
  The compensation object as its constructor leaves it (lines 58-82), except that
  the inertia it holds is the singular one, as after an earlier load.
\<close>

definition lag_comp_example :: "bool \<Rightarrow> bool \<Rightarrow> DynamicalEntityLagCompBase" where
  "lag_comp_example state_received inertia_received =
     \<lparr>de_entity = de_entity_example state_received inertia_received,
      lag_comp_data = state working_example,
      Q_dot = \<lparr>scalar = 0, vector = Vec3 0 0 0\<rparr>,
      compensate_dt = 0,
      force = Vec3 0 0 0, torque = Vec3 0 0 0, mass = 1, mass_rate = 0,
      inertia = singular_inertia, inertia_rate = M_INIT, inertia_inv = identity_matrix\<rparr>"

text \<open>
  The compensation object exactly as its constructor leaves it (the identity as
  inertia, the zero matrix as its inverse), in a cycle in which the inertia attribute
  was received, with a singular matrix in the packing data, and the state attribute
  was not.
\<close>

definition stale_inertia_example :: DynamicalEntityLagCompBase where
  "stale_inertia_example =
     (lag_comp_example False True)\<lparr>inertia := identity_matrix, inertia_inv := M_INIT\<rparr>"

text \<open>
  Stand-ins for the parameters: a scenario time of 10 and a lookahead of one half,
  the time tag of the packing data, the pack and unpack functions of
  \<^verbatim>\<open>PhysicalEntity\<close>, a base load and unload that move the packing state into
  and out of \<^verbatim>\<open>lag_comp_data\<close>, a compensation that moves the position along the
  velocity and sets the time tag, an inversion that fails on a zero determinant
  and otherwise divides the adjugate by the determinant, and for the machine's sum
  and difference the exact ones: at the inputs used here (10 plus one half, 10 minus
  9) the exact results are doubles and the machine returns them; at other inputs the
  stand-in is not the machine's operation, and nothing below uses it there.
\<close>

fun det33 :: "mat33 \<Rightarrow> real" where
  "det33 (Mat33 (Vec3 a b c) (Vec3 d e f) (Vec3 g h i)) =
     a * (e * i - f * h) - b * (d * i - f * g) + c * (d * h - e * g)"

fun adjugate33 :: "mat33 \<Rightarrow> real \<Rightarrow> mat33" where
  "adjugate33 (Mat33 (Vec3 a b c) (Vec3 d e f) (Vec3 g h i)) k =
     Mat33 (Vec3 ((e * i - f * h) / k) ((c * h - b * i) / k) ((b * f - c * e) / k))
           (Vec3 ((f * g - d * i) / k) ((a * i - c * g) / k) ((c * d - a * f) / k))
           (Vec3 ((d * h - e * g) / k) ((b * g - a * h) / k) ((a * e - b * d) / k))"

fun advance :: "vec3 \<Rightarrow> vec3 \<Rightarrow> real \<Rightarrow> vec3" where
  "advance (Vec3 x y z) (Vec3 u v w) dt = Vec3 (x + u * dt) (y + v * dt) (z + w * dt)"

definition externals_example :: externals where
  "externals_example =
     \<lparr>get_scenario_time = 10,
      get_lookahead = 1 / 2,
      get_time = (\<lambda>e. time (state (pe_packing_data e))),
      entity_pack_from_working_data = pack_from_working_data 10,
      entity_unpack_into_working_data = unpack_into_working_data,
      base_load_lag_comp_data = (\<lambda>s. s\<lparr>lag_comp_data := state (pe_packing_data (de_entity s))\<rparr>),
      base_unload_lag_comp_data =
        (\<lambda>s. s\<lparr>de_entity := (de_entity s)
               \<lparr>pe_packing_data := (pe_packing_data (de_entity s))\<lparr>state := lag_comp_data s\<rparr>\<rparr>\<rparr>),
      derivative_first = (\<lambda>q w. \<lparr>scalar = 0, vector = w\<rparr>),
      compensate =
        (\<lambda>t0 t1 s. s\<lparr>lag_comp_data := (lag_comp_data s)
               \<lparr>pos := advance (pos (lag_comp_data s)) (vel (lag_comp_data s)) (t1 - t0),
                time := t1\<rparr>\<rparr>),
      dm_invert_symm =
        (\<lambda>old m. if det33 m = 0 then (1, old) else (0, adjugate33 m (det33 m))),
      TM_SUCCESS = 0,
      double_add = (\<lambda>a b. a + b),
      double_sub = (\<lambda>a b. a - b)\<rparr>"

section \<open>Assumptions on the parameters of the compensation callbacks\<close>

text \<open>
  The callbacks call functions that are not among the sources. What is assumed of
  those functions is stated here, each assumption as a predicate on the parameters:
  the base class's load and unload and \<^verbatim>\<open>compensate\<close> leave every attribute
  record as it is; so do the entity's pack and unpack; the first three leave the
  inverse of the inertia matrix as it is; the entity's pack and unpack are those of
  \<^verbatim>\<open>PhysicalEntity\<close>, the implementations among the sources; the base class's
  unload copies the compensated state to the packing data (as the comments at lines
  188 and 260 say of the unload) and leaves the working data and the state attribute
  as they are.
\<close>

definition callees_keep_ownership :: "externals \<Rightarrow> bool" where
  "callees_keep_ownership X =
     ((\<forall>s. ownership (de_entity (base_load_lag_comp_data X s)) = ownership (de_entity s))
    \<and> (\<forall>s. ownership (de_entity (base_unload_lag_comp_data X s)) = ownership (de_entity s))
    \<and> (\<forall>t0 t1 s. ownership (de_entity (compensate X t0 t1 s)) = ownership (de_entity s)))"

definition entity_keeps_ownership :: "externals \<Rightarrow> bool" where
  "entity_keeps_ownership X =
     ((\<forall>e e'. entity_pack_from_working_data X e = Inr e' \<longrightarrow> ownership e' = ownership e)
    \<and> (\<forall>e e'. entity_unpack_into_working_data X e = Inr e' \<longrightarrow> ownership e' = ownership e))"

definition callees_keep_inertia_inv :: "externals \<Rightarrow> bool" where
  "callees_keep_inertia_inv X =
     ((\<forall>s. inertia_inv (base_load_lag_comp_data X s) = inertia_inv s)
    \<and> (\<forall>s. inertia_inv (base_unload_lag_comp_data X s) = inertia_inv s)
    \<and> (\<forall>t0 t1 s. inertia_inv (compensate X t0 t1 s) = inertia_inv s))"

definition entity_is_PhysicalEntity :: "externals \<Rightarrow> bool" where
  "entity_is_PhysicalEntity X =
     (entity_unpack_into_working_data X = unpack_into_working_data
    \<and> entity_pack_from_working_data X = pack_from_working_data (get_scenario_time X))"

definition unload_publishes_state :: "externals \<Rightarrow> bool" where
  "unload_publishes_state X =
     (\<forall>s. state (pe_packing_data (de_entity (base_unload_lag_comp_data X s))) = lag_comp_data s
        \<and> physical_data (de_entity (base_unload_lag_comp_data X s)) = physical_data (de_entity s)
        \<and> state_attr (de_entity (base_unload_lag_comp_data X s)) = state_attr (de_entity s))"

text \<open>The state the receive callback hands to the inertia block (lines 201-247).\<close>

definition receive_after_compensation ::
  "externals \<Rightarrow> DynamicalEntityLagCompBase \<Rightarrow> DynamicalEntityLagCompBase" where
  "receive_after_compensation X s =
     fst (receive_compensate_step X (get_time X (de_entity s)) (get_scenario_time X)
            (s\<lparr>compensate_dt :=
                 double_sub X (get_scenario_time X) (get_time X (de_entity s))\<rparr>))"

text \<open>
  A registry with one point, labelled and with the target time 10, and one with a
  second point that is already marked achieved.
\<close>

definition registry_example :: "TimedSyncPnt list" where
  "registry_example = add_sync_pnt [] ''initialize'' (Some 10)"

definition registry_example2 :: "TimedSyncPnt list" where
  "registry_example2 =
     registry_example @ [\<lparr>label = ''startup'', target_time = Some 3, achieved = True\<rparr>]"
section \<open>Properties of pack and unpack\<close>

lemma copy_vec3_eq [simp]: "copy_vec3 dst src = src"
  by (cases dst; cases src) (simp add: copy_vec3_def)

lemma bind_result_Inr: "bind_result r f = Inr y \<longleftrightarrow> (\<exists>x. r = Inr x \<and> f x = Inr y)"
  by (cases r) (simp_all add: bind_result_def)

lemma bind_result_simps [simp]:
  "bind_result (Inl err) f = Inl err" "bind_result (Inr x) f = f x"
  by (simp_all add: bind_result_def)

lemma strcmp_zero [simp]: "strcmp a b = 0 \<longleftrightarrow> a = b"
  by (simp add: strcmp_def)

lemma unpack_state_eq [simp]: "unpack_state p w = w\<lparr>state := state p\<rparr>"
  by (simp add: unpack_state_def)

lemma unpack_body_frame_eq [simp]: "unpack_body_frame p w = w\<lparr>body_wrt_struct := body_wrt_struct p\<rparr>"
  by (simp add: unpack_body_frame_def)

lemma pack_numeric_eq:
  "pack_numeric t w p =
     p\<lparr>state := (state w)\<lparr>time := t\<rparr>, accel := accel w, rot_accel := rot_accel w, cm := cm w,
       body_wrt_struct := body_wrt_struct w\<rparr>"
  by (simp add: pack_numeric_def)

text \<open>What each gated block of the unpack function may change.\<close>

lemma unpack_string_eq:
  "unpack_string w p =
     (case p of None \<Rightarrow> Inl Null_dereference
      | Some b \<Rightarrow> Inr (if w = None \<or> w = Some b then Some b else w))"
  by (auto simp: unpack_string_def strcmp_ptr_def mm_strdup_def split: option.splits)

lemma unpack_parent_frame_eq:
  "unpack_parent_frame w p =
     (case p of None \<Rightarrow> Inl Null_dereference
      | Some b \<Rightarrow> Inr (if w = None \<or> w = Some b then (if b \<noteq> [] then Some b else None) else w))"
  by (auto simp: unpack_parent_frame_def strcmp_ptr_def mm_strdup_def nonempty_ptr_def
      split: option.splits)

lemma unpack_state_step_effect:
  assumes "unpack_state_step e = Inr e'"
  shows "e' = e\<lparr>physical_data := physical_data e'\<rparr>"
    and "physical_data e' =
          map_option (\<lambda>w. w\<lparr>state := (if received_this_cycle (state_attr e)
                then state (pe_packing_data e) else state w)\<rparr>) (physical_data e)"
  using assms
  by (auto simp: unpack_state_step_def update_working_def is_received_def
      unpack_string_eq unpack_parent_frame_eq option.map_ident
      split: if_splits option.splits)

lemma unpack_name_step_effect:
  assumes "unpack_name_step e = Inr e'"
  shows "e' = e\<lparr>physical_data := physical_data e'\<rparr>"
    and "physical_data e' =
          map_option (\<lambda>w. w\<lparr>name := (if received_this_cycle (name_attr e)
                  \<and> (name w = None \<or> name w = name (pe_packing_data e))
                then name (pe_packing_data e) else name w)\<rparr>) (physical_data e)"
  using assms
  by (auto simp: unpack_name_step_def update_working_def is_received_def
      unpack_string_eq unpack_parent_frame_eq option.map_ident
      split: if_splits option.splits)

lemma unpack_type_step_effect:
  assumes "unpack_type_step e = Inr e'"
  shows "e' = e\<lparr>physical_data := physical_data e'\<rparr>"
    and "physical_data e' =
          map_option (\<lambda>w. w\<lparr>type := (if received_this_cycle (type_attr e)
                  \<and> (type w = None \<or> type w = type (pe_packing_data e))
                then type (pe_packing_data e) else type w)\<rparr>) (physical_data e)"
  using assms
  by (auto simp: unpack_type_step_def update_working_def is_received_def
      unpack_string_eq unpack_parent_frame_eq option.map_ident
      split: if_splits option.splits)

lemma unpack_status_step_effect:
  assumes "unpack_status_step e = Inr e'"
  shows "e' = e\<lparr>physical_data := physical_data e'\<rparr>"
    and "physical_data e' =
          map_option (\<lambda>w. w\<lparr>status := (if received_this_cycle (status_attr e)
                  \<and> (status w = None \<or> status w = status (pe_packing_data e))
                then status (pe_packing_data e) else status w)\<rparr>) (physical_data e)"
  using assms
  by (auto simp: unpack_status_step_def update_working_def is_received_def
      unpack_string_eq unpack_parent_frame_eq option.map_ident
      split: if_splits option.splits)

lemma unpack_parent_frame_step_effect:
  assumes "unpack_parent_frame_step e = Inr e'"
  shows "e' = e\<lparr>physical_data := physical_data e'\<rparr>"
    and "physical_data e' =
          map_option (\<lambda>w. w\<lparr>parent_frame := (if received_this_cycle (parent_frame_attr e)
                  \<and> (parent_frame w = None
                       \<or> parent_frame w = parent_frame (pe_packing_data e))
                then (if parent_frame (pe_packing_data e) = Some [] then None
                      else parent_frame (pe_packing_data e))
                else parent_frame w)\<rparr>) (physical_data e)"
  using assms
  by (auto simp: unpack_parent_frame_step_def update_working_def is_received_def
      unpack_string_eq unpack_parent_frame_eq option.map_ident
      split: if_splits option.splits)

lemma unpack_body_frame_step_effect:
  assumes "unpack_body_frame_step e = Inr e'"
  shows "e' = e\<lparr>physical_data := physical_data e'\<rparr>"
    and "physical_data e' =
          map_option (\<lambda>w. w\<lparr>body_wrt_struct := (if received_this_cycle (body_frame_attr e)
                then body_wrt_struct (pe_packing_data e) else body_wrt_struct w)\<rparr>) (physical_data e)"
  using assms
  by (auto simp: unpack_body_frame_step_def update_working_def is_received_def
      unpack_string_eq unpack_parent_frame_eq option.map_ident
      split: if_splits option.splits)

lemma only_working_changed:
  assumes "e' = e\<lparr>physical_data := pd\<rparr>"
  shows "pe_packing_data e' = pe_packing_data e"
    and "state_attr e' = state_attr e" and "name_attr e' = name_attr e"
    and "type_attr e' = type_attr e" and "status_attr e' = status_attr e"
    and "parent_frame_attr e' = parent_frame_attr e"
    and "body_frame_attr e' = body_frame_attr e"
  by (simp_all add: assms)

lemma only_working_trans:
  assumes "e1 = e\<lparr>physical_data := p1\<rparr>" and "e2 = e1\<lparr>physical_data := p2\<rparr>"
  shows "e2 = e\<lparr>physical_data := physical_data e2\<rparr>"
  by (simp add: assms)

text \<open>The whole unpack as the composition of its blocks.\<close>

lemma unpack_into_working_data_steps:
  assumes "unpack_into_working_data e = Inr e'"
  obtains e1 e2 e3 e4 e5 where
    "unpack_state_step e = Inr e1" "unpack_name_step e1 = Inr e2"
    "unpack_type_step e2 = Inr e3" "unpack_status_step e3 = Inr e4"
    "unpack_parent_frame_step e4 = Inr e5" "unpack_body_frame_step e5 = Inr e'"
  using assms unfolding unpack_into_working_data_def bind_result_Inr by blast

text \<open>What a completed unpack has done to the entity.\<close>

lemma unpack_into_working_data_effect:
  assumes "unpack_into_working_data e = Inr e'"
  shows "e' = e\<lparr>physical_data := physical_data e'\<rparr>"
    and "physical_data e' =
      map_option
        (\<lambda>w. w\<lparr>state := (if received_this_cycle (state_attr e)
                   then state (pe_packing_data e) else state w),
               name := (if received_this_cycle (name_attr e)
                     \<and> (name w = None \<or> name w = name (pe_packing_data e))
                   then name (pe_packing_data e) else name w),
               type := (if received_this_cycle (type_attr e)
                     \<and> (type w = None \<or> type w = type (pe_packing_data e))
                   then type (pe_packing_data e) else type w),
               status := (if received_this_cycle (status_attr e)
                     \<and> (status w = None \<or> status w = status (pe_packing_data e))
                   then status (pe_packing_data e) else status w),
               parent_frame := (if received_this_cycle (parent_frame_attr e)
                     \<and> (parent_frame w = None
                          \<or> parent_frame w = parent_frame (pe_packing_data e))
                   then (if parent_frame (pe_packing_data e) = Some [] then None
                         else parent_frame (pe_packing_data e))
                   else parent_frame w),
               body_wrt_struct := (if received_this_cycle (body_frame_attr e)
                   then body_wrt_struct (pe_packing_data e) else body_wrt_struct w)\<rparr>)
        (physical_data e)"
proof -
  from assms obtain e1 e2 e3 e4 e5 where
    s1: "unpack_state_step e = Inr e1" and s2: "unpack_name_step e1 = Inr e2" and
    s3: "unpack_type_step e2 = Inr e3" and s4: "unpack_status_step e3 = Inr e4" and
    s5: "unpack_parent_frame_step e4 = Inr e5" and s6: "unpack_body_frame_step e5 = Inr e'"
    by (rule unpack_into_working_data_steps)
  note f1 = unpack_state_step_effect [OF s1]
  note f2 = unpack_name_step_effect [OF s2]
  note f3 = unpack_type_step_effect [OF s3]
  note f4 = unpack_status_step_effect [OF s4]
  note f5 = unpack_parent_frame_step_effect [OF s5]
  note f6 = unpack_body_frame_step_effect [OF s6]
  note a1 = only_working_changed [OF f1(1)]
  note a2 = only_working_changed [OF f2(1)]
  note a3 = only_working_changed [OF f3(1)]
  note a4 = only_working_changed [OF f4(1)]
  note a5 = only_working_changed [OF f5(1)]
  show "e' = e\<lparr>physical_data := physical_data e'\<rparr>"
    by (rule only_working_trans [OF only_working_trans [OF only_working_trans
          [OF only_working_trans [OF only_working_trans [OF f1(1) f2(1)] f3(1)] f4(1)] f5(1)] f6(1)])
  show "physical_data e' =
      map_option
        (\<lambda>w. w\<lparr>state := (if received_this_cycle (state_attr e)
                   then state (pe_packing_data e) else state w),
               name := (if received_this_cycle (name_attr e)
                     \<and> (name w = None \<or> name w = name (pe_packing_data e))
                   then name (pe_packing_data e) else name w),
               type := (if received_this_cycle (type_attr e)
                     \<and> (type w = None \<or> type w = type (pe_packing_data e))
                   then type (pe_packing_data e) else type w),
               status := (if received_this_cycle (status_attr e)
                     \<and> (status w = None \<or> status w = status (pe_packing_data e))
                   then status (pe_packing_data e) else status w),
               parent_frame := (if received_this_cycle (parent_frame_attr e)
                     \<and> (parent_frame w = None
                          \<or> parent_frame w = parent_frame (pe_packing_data e))
                   then (if parent_frame (pe_packing_data e) = Some [] then None
                         else parent_frame (pe_packing_data e))
                   else parent_frame w),
               body_wrt_struct := (if received_this_cycle (body_frame_attr e)
                   then body_wrt_struct (pe_packing_data e) else body_wrt_struct w)\<rparr>)
        (physical_data e)"
    by (cases "physical_data e")
      (simp_all add: f1(2) f2(2) f3(2) f4(2) f5(2) f6(2) a1 a2 a3 a4 a5 split del: if_split
        cong: if_cong)
qed

text \<open>
  Claim C1. A field of the working data whose attribute was not received this cycle
  is the same after \<^verbatim>\<open>unpack_into_working_data\<close> as before it. This holds for
  the state, the four identity strings and the body frame attitude, each under its
  own attribute; the accelerations and the centre of mass are never written. (The
  working data are reached through a pointer: \<open>map_option\<close> reads a field of
  what it points to.)
\<close>

theorem unpack_ownership_gating:
  assumes "unpack_into_working_data e = Inr e'"
  shows "(received_this_cycle (state_attr e) = False \<longrightarrow>
            map_option state (physical_data e') = map_option state (physical_data e))
       \<and> (received_this_cycle (name_attr e) = False \<longrightarrow>
            map_option name (physical_data e') = map_option name (physical_data e))
       \<and> (received_this_cycle (type_attr e) = False \<longrightarrow>
            map_option type (physical_data e') = map_option type (physical_data e))
       \<and> (received_this_cycle (status_attr e) = False \<longrightarrow>
            map_option status (physical_data e') = map_option status (physical_data e))
       \<and> (received_this_cycle (parent_frame_attr e) = False \<longrightarrow>
            map_option parent_frame (physical_data e') = map_option parent_frame (physical_data e))
       \<and> (received_this_cycle (body_frame_attr e) = False \<longrightarrow>
            map_option body_wrt_struct (physical_data e') =
            map_option body_wrt_struct (physical_data e))
       \<and> map_option accel (physical_data e') = map_option accel (physical_data e)
       \<and> map_option rot_accel (physical_data e') = map_option rot_accel (physical_data e)
       \<and> map_option cm (physical_data e') = map_option cm (physical_data e)"
  by (cases "physical_data e")
    (simp_all add: unpack_into_working_data_effect(2) [OF assms])

lemmas example_defs =
  entity_example_def attr_def working_example_def packing_example_def

lemmas unpack_defs =
  unpack_into_working_data_def unpack_state_step_def unpack_name_step_def
  unpack_type_step_def unpack_status_step_def unpack_parent_frame_step_def
  unpack_body_frame_step_def update_working_def is_received_def
  unpack_string_eq unpack_parent_frame_eq

lemma unpack_example_FFT:
  "unpack_into_working_data (entity_example False False True) =
     Inr ((entity_example False False True)
       \<lparr>physical_data := Some (working_example\<lparr>body_wrt_struct := body_wrt_struct packing_example\<rparr>)\<rparr>)"
  by (simp add: unpack_defs entity_example_def attr_def)

lemma unpack_example_FFF:
  "unpack_into_working_data (entity_example False False False) =
     Inr (entity_example False False False)"
  by (simp add: unpack_defs entity_example_def attr_def)

theorem unpack_ownership_gating_witness:
  "(\<exists>e'. unpack_into_working_data (entity_example False False True) = Inr e'
      \<and> received_this_cycle (state_attr (entity_example False False True)) = False
      \<and> received_this_cycle (name_attr (entity_example False False True)) = False
      \<and> received_this_cycle (type_attr (entity_example False False True)) = False
      \<and> received_this_cycle (status_attr (entity_example False False True)) = False
      \<and> received_this_cycle (parent_frame_attr (entity_example False False True)) = False
      \<and> map_option state (physical_data e') = Some (state working_example)
      \<and> map_option name (physical_data e') = Some (Some ''Lander'')
      \<and> map_option type (physical_data e') = Some (Some ''vehicle'')
      \<and> map_option status (physical_data e') = Some (Some ''active'')
      \<and> map_option parent_frame (physical_data e') = Some (Some ''MoonCentricInertial'')
      \<and> map_option body_wrt_struct (physical_data e') = Some (body_wrt_struct packing_example))
   \<and> (\<exists>e'. unpack_into_working_data (entity_example False False False) = Inr e'
      \<and> received_this_cycle (body_frame_attr (entity_example False False False)) = False
      \<and> map_option body_wrt_struct (physical_data e') = Some (body_wrt_struct working_example)
      \<and> map_option cm (physical_data e') = Some (cm working_example))"
proof -
  let ?e = "entity_example False False True"
  let ?e' = "?e\<lparr>physical_data :=
    Some (working_example\<lparr>body_wrt_struct := body_wrt_struct packing_example\<rparr>)\<rparr>"
  let ?f = "entity_example False False False"
  have r: "unpack_into_working_data ?e = Inr ?e'"
    by (rule unpack_example_FFT)
  have f: "received_this_cycle (state_attr ?e) = False"
    "received_this_cycle (name_attr ?e) = False"
    "received_this_cycle (type_attr ?e) = False"
    "received_this_cycle (status_attr ?e) = False"
    "received_this_cycle (parent_frame_attr ?e) = False"
    by (simp_all add: entity_example_def attr_def)
  have w: "physical_data ?e = Some working_example" "physical_data ?f = Some working_example"
    by (simp_all add: entity_example_def)
  from unpack_ownership_gating [OF r] f
  have "map_option state (physical_data ?e') = map_option state (physical_data ?e)"
    "map_option name (physical_data ?e') = map_option name (physical_data ?e)"
    "map_option type (physical_data ?e') = map_option type (physical_data ?e)"
    "map_option status (physical_data ?e') = map_option status (physical_data ?e)"
    "map_option parent_frame (physical_data ?e') = map_option parent_frame (physical_data ?e)"
    by blast+
  then have 1: "map_option state (physical_data ?e') = Some (state working_example)"
    "map_option name (physical_data ?e') = Some (Some ''Lander'')"
    "map_option type (physical_data ?e') = Some (Some ''vehicle'')"
    "map_option status (physical_data ?e') = Some (Some ''active'')"
    "map_option parent_frame (physical_data ?e') = Some (Some ''MoonCentricInertial'')"
    unfolding w by (simp_all add: working_example_def)
  have 2: "map_option body_wrt_struct (physical_data ?e') =
      Some (body_wrt_struct packing_example)"
    by simp
  have g: "received_this_cycle (body_frame_attr ?f) = False"
    by (simp add: entity_example_def attr_def)
  from unpack_ownership_gating [OF unpack_example_FFF] g
  have "map_option body_wrt_struct (physical_data ?f) = Some (body_wrt_struct working_example)"
    "map_option cm (physical_data ?f) = Some (cm working_example)"
    by (simp_all add: w)
  with r f 1 2 g unpack_example_FFF show ?thesis by blast
qed

section \<open>Properties of pack, and of pack followed by unpack\<close>

lemma pack_required_string_eq:
  "pack_required_string fatal w p =
     (case w of None \<Rightarrow> Inl fatal
      | Some a \<Rightarrow> (case p of None \<Rightarrow> Inl Null_dereference | Some b \<Rightarrow> Inr (Some a)))"
  by (auto simp: pack_required_string_def strcmp_ptr_def mm_strdup_def split: option.splits)

lemma pack_optional_string_eq: "pack_optional_string w p = Inr w"
  by (auto simp: pack_optional_string_def strcmp_ptr_def mm_strdup_def split: option.splits)

lemma pack_from_working_data_eq:
  assumes "physical_data e = Some w" "name w \<noteq> None" "parent_frame w \<noteq> None"
    "name (pe_packing_data e) \<noteq> None" "parent_frame (pe_packing_data e) \<noteq> None"
  shows "pack_from_working_data t e =
     Inr (e\<lparr>pe_packing_data := (pe_packing_data e)
        \<lparr>name := name w, type := type w, status := status w, parent_frame := parent_frame w,
         state := (state w)\<lparr>time := t\<rparr>, accel := accel w, rot_accel := rot_accel w,
         cm := cm w, body_wrt_struct := body_wrt_struct w\<rparr>\<rparr>)"
  using assms
  by (auto simp: pack_from_working_data_def pack_required_string_eq pack_optional_string_eq
      pack_numeric_eq)

lemma pack_from_working_data_effect:
  assumes "pack_from_working_data t e = Inr e'" and "physical_data e = Some w"
  shows "e' = e\<lparr>pe_packing_data := (pe_packing_data e)
        \<lparr>name := name w, type := type w, status := status w, parent_frame := parent_frame w,
         state := (state w)\<lparr>time := t\<rparr>, accel := accel w, rot_accel := rot_accel w,
         cm := cm w, body_wrt_struct := body_wrt_struct w\<rparr>\<rparr>"
  using assms
  by (auto simp: pack_from_working_data_def pack_required_string_eq pack_optional_string_eq
      pack_numeric_eq split: option.splits)


lemma unpack_example_TTT:
  "unpack_into_working_data (entity_example True True True) =
     Inr ((entity_example True True True)
       \<lparr>physical_data := Some (working_example
          \<lparr>state := state packing_example, body_wrt_struct := body_wrt_struct packing_example\<rparr>)\<rparr>)"
  by (simp add: unpack_defs example_defs)

lemma pack_example_TTT:
  "pack_from_working_data 10 (entity_example True True True) =
     Inr ((entity_example True True True)
       \<lparr>pe_packing_data := working_example\<lparr>state := (state working_example)\<lparr>time := 10\<rparr>\<rparr>\<rparr>)"
  by (subst pack_from_working_data_eq [where w = working_example])
     (simp_all add: example_defs)

lemma round_trip_example:
  "bind_result (pack_from_working_data 10 (entity_example True True True)) unpack_into_working_data =
     Inr ((entity_example True True True)
       \<lparr>physical_data := Some (working_example\<lparr>state := (state working_example)\<lparr>time := 10\<rparr>\<rparr>),
        pe_packing_data := working_example\<lparr>state := (state working_example)\<lparr>time := 10\<rparr>\<rparr>\<rparr>)"
  by (simp add: pack_example_TTT) (simp add: unpack_defs example_defs)


text \<open>
  Claim C7 (as amended). For every working record with a non-NULL name and parent
  frame, and a packing record whose name and parent frame are non-NULL as well,
  \<^verbatim>\<open>pack_from_working_data\<close> returns and has copied every numeric field of the
  working record (position, velocity, attitude quaternion, angular velocity,
  accelerations, centre of mass, body to structure quaternion) into the packing
  record, value for value, whatever the attributes say; the time tag of the packing
  state is the scenario time, and the working record is untouched.
\<close>

theorem pack_copies_numeric_fields:
  assumes "physical_data e = Some w" and "name w \<noteq> None" and "parent_frame w \<noteq> None"
    and "name (pe_packing_data e) \<noteq> None" and "parent_frame (pe_packing_data e) \<noteq> None"
  shows "\<exists>e'. pack_from_working_data scenario_time e = Inr e'
       \<and> pos (state (pe_packing_data e')) = pos (state w)
       \<and> vel (state (pe_packing_data e')) = vel (state w)
       \<and> quat (state (pe_packing_data e')) = quat (state w)
       \<and> ang_vel (state (pe_packing_data e')) = ang_vel (state w)
       \<and> accel (pe_packing_data e') = accel w
       \<and> rot_accel (pe_packing_data e') = rot_accel w
       \<and> cm (pe_packing_data e') = cm w
       \<and> body_wrt_struct (pe_packing_data e') = body_wrt_struct w
       \<and> time (state (pe_packing_data e')) = scenario_time
       \<and> physical_data e' = Some w"
  by (simp add: pack_from_working_data_eq [OF assms] assms(1))

theorem pack_copies_numeric_fields_witness:
  "physical_data (entity_example False False False) = Some working_example
   \<and> name working_example \<noteq> None \<and> parent_frame working_example \<noteq> None
   \<and> name (pe_packing_data (entity_example False False False)) \<noteq> None
   \<and> parent_frame (pe_packing_data (entity_example False False False)) \<noteq> None
   \<and> (\<exists>e'. pack_from_working_data 10 (entity_example False False False) = Inr e'
        \<and> pos (state (pe_packing_data e')) = Vec3 1 2 3
        \<and> cm (pe_packing_data e') = Vec3 (1 / 4) 0 0
        \<and> time (state (pe_packing_data e')) = 10)"
proof -
  let ?e = "entity_example False False False"
  have h: "physical_data ?e = Some working_example"
    "name working_example \<noteq> None" "parent_frame working_example \<noteq> None"
    "name (pe_packing_data ?e) \<noteq> None" "parent_frame (pe_packing_data ?e) \<noteq> None"
    by (simp_all add: example_defs)
  from pack_copies_numeric_fields [OF h, of 10]
  obtain e' where "pack_from_working_data 10 ?e = Inr e'"
    "pos (state (pe_packing_data e')) = pos (state working_example)"
    "cm (pe_packing_data e') = cm working_example"
    "time (state (pe_packing_data e')) = 10"
    by blast
  then have "\<exists>e'. pack_from_working_data 10 ?e = Inr e'
        \<and> pos (state (pe_packing_data e')) = Vec3 1 2 3
        \<and> cm (pe_packing_data e') = Vec3 (1 / 4) 0 0
        \<and> time (state (pe_packing_data e')) = 10"
    by (auto simp: working_example_def)
  with h show ?thesis by blast
qed

text \<open>
  Claim C7 as stated fails: with a working record whose name and parent frame are
  set, a packing record whose name (or parent frame) is still NULL reaches
  \<^verbatim>\<open>strcmp\<close> unchecked, and nothing is copied.
\<close>

theorem pack_null_packing_string_counterexample:
  "physical_data ((entity_example False False False)
       \<lparr>pe_packing_data := packing_example\<lparr>name := None\<rparr>\<rparr>) = Some working_example
   \<and> name working_example \<noteq> None \<and> parent_frame working_example \<noteq> None
   \<and> pack_from_working_data 10
       ((entity_example False False False)\<lparr>pe_packing_data := packing_example\<lparr>name := None\<rparr>\<rparr>)
       = Inl Null_dereference
   \<and> pack_from_working_data 10
       ((entity_example False False False)
          \<lparr>pe_packing_data := packing_example\<lparr>parent_frame := None\<rparr>\<rparr>)
       = Inl Null_dereference"
  by (simp add: pack_from_working_data_def pack_required_string_eq pack_optional_string_eq
      example_defs)

text \<open>
  Claim C2 (as amended). When the state attribute was received, unpack makes the
  working state (time tag included) equal to the packing state, and when the body
  frame attribute was received, the working body frame attitude equal to the packed
  one; a working name, type or status that is NULL and whose attribute was received
  takes the packed string. Pack followed at once by unpack, with every attribute
  received, reproduces every numeric field of the original working record except
  the time tag of the state, which becomes the scenario time of the pack. (Nothing
  is said of a working identity string that differs from the packed one.)
\<close>

theorem unpack_writes_received_fields:
  assumes "physical_data e = Some w"
  shows "(\<forall>e'. unpack_into_working_data e = Inr e' \<longrightarrow>
            (received_this_cycle (state_attr e) \<longrightarrow>
               map_option state (physical_data e') = Some (state (pe_packing_data e)))
          \<and> (received_this_cycle (body_frame_attr e) \<longrightarrow>
               map_option body_wrt_struct (physical_data e') =
               Some (body_wrt_struct (pe_packing_data e)))
          \<and> (received_this_cycle (name_attr e) \<and> name w = None \<longrightarrow>
               map_option name (physical_data e') = Some (name (pe_packing_data e)))
          \<and> (received_this_cycle (type_attr e) \<and> type w = None \<longrightarrow>
               map_option type (physical_data e') = Some (type (pe_packing_data e)))
          \<and> (received_this_cycle (status_attr e) \<and> status w = None \<longrightarrow>
               map_option status (physical_data e') = Some (status (pe_packing_data e))))
       \<and> (\<forall>e''. bind_result (pack_from_working_data scenario_time e) unpack_into_working_data
                 = Inr e''
               \<and> received_this_cycle (state_attr e) \<and> received_this_cycle (name_attr e)
               \<and> received_this_cycle (type_attr e) \<and> received_this_cycle (status_attr e)
               \<and> received_this_cycle (parent_frame_attr e)
               \<and> received_this_cycle (body_frame_attr e) \<longrightarrow>
             map_option state (physical_data e'') = Some ((state w)\<lparr>time := scenario_time\<rparr>)
           \<and> map_option accel (physical_data e'') = Some (accel w)
           \<and> map_option rot_accel (physical_data e'') = Some (rot_accel w)
           \<and> map_option cm (physical_data e'') = Some (cm w)
           \<and> map_option body_wrt_struct (physical_data e'') = Some (body_wrt_struct w))"
proof (intro conjI allI impI)
  fix e'' :: "'a PhysicalEntity_scheme"
  assume a: "bind_result (pack_from_working_data scenario_time e) unpack_into_working_data
                 = Inr e''
               \<and> received_this_cycle (state_attr e) \<and> received_this_cycle (name_attr e)
               \<and> received_this_cycle (type_attr e) \<and> received_this_cycle (status_attr e)
               \<and> received_this_cycle (parent_frame_attr e)
               \<and> received_this_cycle (body_frame_attr e)"
  then obtain e1 where p: "pack_from_working_data scenario_time e = Inr e1"
    and u: "unpack_into_working_data e1 = Inr e''"
    unfolding bind_result_Inr by blast
  note e1 = pack_from_working_data_effect [OF p assms]
  have pd: "physical_data e1 = Some w" by (subst e1) (simp add: assms)
  have at: "state_attr e1 = state_attr e" "body_frame_attr e1 = body_frame_attr e"
    by (subst e1, simp)+
  have pk: "state (pe_packing_data e1) = (state w)\<lparr>time := scenario_time\<rparr>"
    "body_wrt_struct (pe_packing_data e1) = body_wrt_struct w"
    by (subst e1, simp)+
  note r = unpack_into_working_data_effect(2) [OF u]
  show "map_option state (physical_data e'') = Some ((state w)\<lparr>time := scenario_time\<rparr>)"
    "map_option accel (physical_data e'') = Some (accel w)"
    "map_option rot_accel (physical_data e'') = Some (rot_accel w)"
    "map_option cm (physical_data e'') = Some (cm w)"
    "map_option body_wrt_struct (physical_data e'') = Some (body_wrt_struct w)"
    using a by (simp_all add: r pd at pk)
qed (simp_all add: unpack_into_working_data_effect(2) assms)

lemma unpack_example_null_strings:
  "unpack_into_working_data ((entity_example True True True)
       \<lparr>physical_data := Some (working_example\<lparr>name := None, type := None, status := None\<rparr>)\<rparr>) =
     Inr ((entity_example True True True)
       \<lparr>physical_data := Some (working_example
          \<lparr>name := name packing_example, type := type packing_example,
           status := status packing_example, state := state packing_example,
           body_wrt_struct := body_wrt_struct packing_example\<rparr>)\<rparr>)"
  by (simp add: unpack_defs example_defs)

theorem unpack_writes_received_fields_witness:
  "physical_data (entity_example True True True) = Some working_example
   \<and> (\<exists>e'. unpack_into_working_data (entity_example True True True) = Inr e'
        \<and> received_this_cycle (state_attr (entity_example True True True))
        \<and> received_this_cycle (body_frame_attr (entity_example True True True))
        \<and> map_option state (physical_data e') = Some (state packing_example)
        \<and> map_option body_wrt_struct (physical_data e') =
            Some (body_wrt_struct packing_example))
   \<and> (\<exists>e'. unpack_into_working_data ((entity_example True True True)
          \<lparr>physical_data :=
             Some (working_example\<lparr>name := None, type := None, status := None\<rparr>)\<rparr>) = Inr e'
        \<and> map_option name (physical_data e') = Some (Some ''Orbiter'')
        \<and> map_option type (physical_data e') = Some (Some [])
        \<and> map_option status (physical_data e') = Some (Some ''docked''))
   \<and> (\<exists>e''. bind_result (pack_from_working_data 10 (entity_example True True True))
               unpack_into_working_data = Inr e''
        \<and> map_option state (physical_data e'') = Some ((state working_example)\<lparr>time := 10\<rparr>)
        \<and> map_option accel (physical_data e'') = Some (accel working_example)
        \<and> map_option rot_accel (physical_data e'') = Some (rot_accel working_example)
        \<and> map_option cm (physical_data e'') = Some (cm working_example)
        \<and> map_option body_wrt_struct (physical_data e'') =
            Some (body_wrt_struct working_example))"
proof -
  let ?e = "entity_example True True True"
  let ?w = "working_example\<lparr>name := None, type := None, status := None\<rparr>"
  let ?n = "?e\<lparr>physical_data := Some ?w\<rparr>"
  have h: "physical_data ?e = Some working_example"
    by (simp add: entity_example_def)
  have hn: "physical_data ?n = Some ?w"
    by simp
  have f: "received_this_cycle (state_attr ?e)" "received_this_cycle (name_attr ?e)"
    "received_this_cycle (type_attr ?e)" "received_this_cycle (status_attr ?e)"
    "received_this_cycle (parent_frame_attr ?e)" "received_this_cycle (body_frame_attr ?e)"
    by (simp_all add: entity_example_def attr_def)
  have fn: "received_this_cycle (name_attr ?n)" "received_this_cycle (type_attr ?n)"
    "received_this_cycle (status_attr ?n)"
    "name ?w = None" "type ?w = None" "status ?w = None"
    by (simp_all add: entity_example_def attr_def)
  have pk: "pe_packing_data ?e = packing_example" "pe_packing_data ?n = packing_example"
    by (simp_all add: entity_example_def)
  note t = unpack_writes_received_fields [OF h, of 10]
  from t unpack_example_TTT f(1,6) pk(1)
  have 1: "\<exists>e'. unpack_into_working_data ?e = Inr e'
        \<and> received_this_cycle (state_attr ?e)
        \<and> received_this_cycle (body_frame_attr ?e)
        \<and> map_option state (physical_data e') = Some (state packing_example)
        \<and> map_option body_wrt_struct (physical_data e') =
            Some (body_wrt_struct packing_example)"
    by metis
  from unpack_example_null_strings obtain e' where u: "unpack_into_working_data ?n = Inr e'"
    by blast
  from unpack_writes_received_fields [OF hn, of 10] u fn
  have "map_option name (physical_data e') = Some (name (pe_packing_data ?n))"
    "map_option type (physical_data e') = Some (type (pe_packing_data ?n))"
    "map_option status (physical_data e') = Some (status (pe_packing_data ?n))"
    by blast+
  then have "map_option name (physical_data e') = Some (Some ''Orbiter'')"
    "map_option type (physical_data e') = Some (Some [])"
    "map_option status (physical_data e') = Some (Some ''docked'')"
    unfolding pk by (simp_all add: packing_example_def)
  with u have 2: "\<exists>e'. unpack_into_working_data ?n = Inr e'
        \<and> map_option name (physical_data e') = Some (Some ''Orbiter'')
        \<and> map_option type (physical_data e') = Some (Some [])
        \<and> map_option status (physical_data e') = Some (Some ''docked'')"
    by blast
  from t round_trip_example f
  have 3: "\<exists>e''. bind_result (pack_from_working_data 10 ?e) unpack_into_working_data = Inr e''
        \<and> map_option state (physical_data e'') = Some ((state working_example)\<lparr>time := 10\<rparr>)
        \<and> map_option accel (physical_data e'') = Some (accel working_example)
        \<and> map_option rot_accel (physical_data e'') = Some (rot_accel working_example)
        \<and> map_option cm (physical_data e'') = Some (cm working_example)
        \<and> map_option body_wrt_struct (physical_data e'') =
            Some (body_wrt_struct working_example)"
    by metis
  from h 1 2 3 show ?thesis by blast
qed

text \<open>
  Claim C2 as stated fails twice. A received name that differs from the working name
  is not written: the working name is still the old one after unpack. And pack
  followed by unpack, with every attribute received, changes a numeric field: the
  time tag of the working state, 5 before, is the scenario time 10 after.
\<close>

theorem unpack_writes_received_fields_counterexample:
  "(\<exists>e'. unpack_into_working_data (entity_example True True True) = Inr e'
      \<and> received_this_cycle (name_attr (entity_example True True True))
      \<and> map_option name (physical_data e') \<noteq>
          Some (name (pe_packing_data (entity_example True True True))))
   \<and> (\<exists>e''. bind_result (pack_from_working_data 10 (entity_example True True True))
               unpack_into_working_data = Inr e''
      \<and> map_option (\<lambda>w. time (state w)) (physical_data e'') \<noteq>
          map_option (\<lambda>w. time (state w)) (physical_data (entity_example True True True)))"
  unfolding unpack_example_TTT round_trip_example
  by (simp add: example_defs)

text \<open>
  Claim C6 at its failing input: the type and the parent frame arrive empty, their
  attributes were received, and the working record keeps its old type and parent
  frame.
\<close>

theorem unpack_empty_incoming_keeps_stale_value:
  "\<exists>e'. unpack_into_working_data (entity_example False True False) = Inr e'
     \<and> received_this_cycle (type_attr (entity_example False True False))
     \<and> received_this_cycle (parent_frame_attr (entity_example False True False))
     \<and> type (pe_packing_data (entity_example False True False)) = Some []
     \<and> parent_frame (pe_packing_data (entity_example False True False)) = Some []
     \<and> map_option type (physical_data e') = Some (Some ''vehicle'')
     \<and> map_option parent_frame (physical_data e') = Some (Some ''MoonCentricInertial'')"
  by (simp add: unpack_defs example_defs)

text \<open>The other half of claim C6: a NULL working name ends the run in pack.\<close>

lemma pack_null_name_fatal:
  assumes "physical_data e = Some w" and "name w = None"
  shows "pack_from_working_data scenario_time e = Inl Null_name"
  using assms by (simp add: pack_from_working_data_def pack_required_string_eq)

lemma pack_null_parent_frame_fatal:
  assumes "physical_data e = Some w" and "name w \<noteq> None" and "name (pe_packing_data e) \<noteq> None"
    and "parent_frame w = None"
  shows "pack_from_working_data scenario_time e = Inl Null_parent_frame"
  using assms
  by (auto simp: pack_from_working_data_def pack_required_string_eq pack_optional_string_eq)

section \<open>Initialization of the integrating compensation\<close>

lemma initialize_fatal_when_dt_below_tolerance:
  assumes "integ_dt s < integ_tol s"
  shows "PhysicalEntityLagCompInteg_initialize base_initialize s =
           Inl (Tolerance_not_less_than_dt (integ_dt s) (integ_tol s))"
  using assms by (simp add: PhysicalEntityLagCompInteg_initialize_def)

lemma initialize_proceeds_when_tolerance_not_above_dt:
  assumes "integ_tol s \<le> integ_dt s"
  shows "PhysicalEntityLagCompInteg_initialize base_initialize s = base_initialize s"
  using assms by (simp add: PhysicalEntityLagCompInteg_initialize_def)

lemma initialize_spec_scenario:
  "PhysicalEntityLagCompInteg_initialize base_initialize
     \<lparr>integ_dt = 1 / 100, integ_tol = 1 / 10\<rparr> =
   Inl (Tolerance_not_less_than_dt (1 / 100) (1 / 10))"
  by (simp add: PhysicalEntityLagCompInteg_initialize_def)

text \<open>
  Claim C3 at its failing input: with the tolerance equal to the step, the guard
  \<^verbatim>\<open>integ_dt < integ_tol\<close> does not fire and the call goes on to the base
  class's initialization, although the message of the guard says that the tolerance
  must be less than the step.
\<close>

theorem initialize_accepts_tolerance_equal_to_dt:
  "PhysicalEntityLagCompInteg_initialize base_initialize
     \<lparr>integ_dt = 1 / 100, integ_tol = 1 / 100\<rparr> =
   base_initialize \<lparr>integ_dt = 1 / 100, integ_tol = 1 / 100\<rparr>"
  by (simp add: PhysicalEntityLagCompInteg_initialize_def)

text \<open>Initialization of a physical entity without working data ends the run.\<close>

lemma PhysicalEntity_initialize_unbound:
  assumes "physical_data e = None"
  shows "PhysicalEntity_initialize base_initialize e = Inl Null_PhysicalEntityData"
  using assms by (simp add: PhysicalEntity_initialize_def)

lemma PhysicalEntity_initialize_with_null:
  "PhysicalEntity_initialize_with base_initialize None e = Inl Null_PhysicalEntityData"
  by (simp add: PhysicalEntity_initialize_with_def)

lemma PhysicalEntity_initialize_with_bound:
  "PhysicalEntity_initialize_with base_initialize (Some w) e =
     base_initialize (e\<lparr>physical_data := Some w\<rparr>)"
  by (simp add: PhysicalEntity_initialize_with_def PhysicalEntity_initialize_def)

section \<open>The default condition for sending\<close>

text \<open>
  Claim C10. The default \<^verbatim>\<open>Conditional::should_send\<close> returns true for every
  attribute, whatever its flags (and for a NULL pointer too), so that it removes no
  attribute from those to send.
\<close>

theorem should_send_always:
  "should_send attribute = True
   \<and> should_send (Some (a\<lparr>changed_since_send := c\<rparr>)) = True
   \<and> filter should_send attributes = attributes"
  by (simp add: should_send_def)

section \<open>Timed synchronization points\<close>

lemma achieve_all_length [simp]: "length (fst (achieve_all pts t)) = length pts"
  by (simp add: achieve_all_def)

lemma achieve_all_nth:
  assumes "i < length pts"
  shows "fst (achieve_all pts t) ! i =
           (if eligible (pts ! i) t then (pts ! i)\<lparr>achieved := True\<rparr> else pts ! i)"
  using assms by (simp add: achieve_all_def)

lemma eligible_not_achieved: "eligible p t \<Longrightarrow> \<not> achieved p"
  by (simp add: eligible_def)

lemma achieve_all_returns:
  "snd (achieve_all pts t) \<longleftrightarrow>
     (\<exists>i < length pts. \<not> achieved (pts ! i) \<and> achieved (fst (achieve_all pts t) ! i))"
proof
  assume "snd (achieve_all pts t)"
  then obtain p where "p \<in> set pts" and e: "eligible p t"
    by (auto simp: achieve_all_def list_ex_iff)
  then obtain i where i: "i < length pts" and p: "pts ! i = p"
    by (auto simp: in_set_conv_nth)
  from e p have "\<not> achieved (pts ! i)" by (simp add: eligible_not_achieved)
  moreover from e p i have "achieved (fst (achieve_all pts t) ! i)"
    by (simp add: achieve_all_nth)
  ultimately show "\<exists>i < length pts. \<not> achieved (pts ! i) \<and> achieved (fst (achieve_all pts t) ! i)"
    using i by blast
next
  assume "\<exists>i < length pts. \<not> achieved (pts ! i) \<and> achieved (fst (achieve_all pts t) ! i)"
  then obtain i where i: "i < length pts" and n: "\<not> achieved (pts ! i)"
    and a: "achieved (fst (achieve_all pts t) ! i)"
    by blast
  from i n a have "eligible (pts ! i) t"
    by (auto simp: achieve_all_nth split: if_splits)
  with i show "snd (achieve_all pts t)"
    by (auto simp: achieve_all_def list_ex_iff)
qed

lemma achieve_all_marks:
  assumes "i < length pts"
  shows "achieved (fst (achieve_all pts t) ! i) \<longleftrightarrow>
           achieved (pts ! i) \<or> (case target_time (pts ! i) of Some tt \<Rightarrow> tt \<le> t | None \<Rightarrow> True)"
  using assms by (simp add: achieve_all_nth eligible_def split: option.splits)

lemma achieve_all_keeps_points:
  "map label (fst (achieve_all pts t)) = map label pts"
  "map target_time (fst (achieve_all pts t)) = map target_time pts"
  by (simp_all add: achieve_all_def)

lemma achieve_all_returns_timed:
  assumes "\<forall>p \<in> set pts. target_time p \<noteq> None"
  shows "snd (achieve_all pts t) \<longleftrightarrow> (\<exists>p \<in> set pts. \<not> achieved p \<and> point_ready p t)"
  using assms
  by (auto simp: achieve_all_def list_ex_iff eligible_def point_ready_def split: option.splits)

text \<open>
  Claim C9. A synchronization point with a target time is ready at a time exactly
  when that time has reached the target: the point with target 10 is not ready at
  9.9 and is ready at 10. A point with a target time that is not yet marked
  achieved is marked by \<open>achieve_all\<close> at a time exactly when it is ready at
  that time; a point already marked stays marked, and no label or target time
  changes. And \<open>achieve_all\<close> returns true exactly when some point that was not
  marked before the call is marked after it, which for points with target times is:
  exactly when some point not yet marked is ready at the time of the call.
\<close>

theorem sync_point_readiness:
  "(target_time p = Some t \<longrightarrow> (point_ready p current_time \<longleftrightarrow> t \<le> current_time))
   \<and> (find (\<lambda>q. label q = l) pts = Some p \<and> target_time p = Some t \<longrightarrow>
        (is_ready pts l current_time \<longleftrightarrow> t \<le> current_time))
   \<and> is_ready registry_example ''initialize'' (99 / 10) = False
   \<and> is_ready registry_example ''initialize'' 10 = True
   \<and> (snd (achieve_all pts current_time) \<longleftrightarrow>
        (\<exists>i < length pts. \<not> achieved (pts ! i)
            \<and> achieved (fst (achieve_all pts current_time) ! i)))
   \<and> (\<forall>i < length pts. target_time (pts ! i) \<noteq> None \<and> \<not> achieved (pts ! i) \<longrightarrow>
        (achieved (fst (achieve_all pts current_time) ! i) \<longleftrightarrow>
           point_ready (pts ! i) current_time))
   \<and> (\<forall>i < length pts. achieved (pts ! i) \<longrightarrow>
        achieved (fst (achieve_all pts current_time) ! i))
   \<and> map label (fst (achieve_all pts current_time)) = map label pts
   \<and> map target_time (fst (achieve_all pts current_time)) = map target_time pts
   \<and> ((\<forall>q \<in> set pts. target_time q \<noteq> None) \<longrightarrow>
        (snd (achieve_all pts current_time) \<longleftrightarrow>
           (\<exists>q \<in> set pts. \<not> achieved q \<and> point_ready q current_time)))"
proof -
  have 1: "achieved (fst (achieve_all pts current_time) ! i) \<longleftrightarrow>
      point_ready (pts ! i) current_time"
    if "i < length pts" and "target_time (pts ! i) \<noteq> None" and "\<not> achieved (pts ! i)" for i
    using that by (auto simp: achieve_all_marks point_ready_def)
  have 2: "achieved (fst (achieve_all pts current_time) ! i)"
    if "i < length pts" and "achieved (pts ! i)" for i
    using that by (simp add: achieve_all_marks)
  have 3: "target_time p = Some t \<longrightarrow> (point_ready p current_time \<longleftrightarrow> t \<le> current_time)"
    by (simp add: point_ready_def)
  have 4: "find (\<lambda>q. label q = l) pts = Some p \<and> target_time p = Some t \<longrightarrow>
        (is_ready pts l current_time \<longleftrightarrow> t \<le> current_time)"
    by (simp add: point_ready_def is_ready_def)
  have 5: "is_ready registry_example ''initialize'' (99 / 10) = False"
    "is_ready registry_example ''initialize'' 10 = True"
    by (simp_all add: point_ready_def is_ready_def registry_example_def add_sync_pnt_def)
  from 1 2 3 4 5 achieve_all_returns [of pts current_time]
    achieve_all_keeps_points [of pts current_time]
    achieve_all_returns_timed [of pts current_time]
  show ?thesis by blast
qed

theorem sync_point_readiness_witness:
  "target_time (hd registry_example) = Some 10
   \<and> find (\<lambda>q. label q = ''initialize'') registry_example = Some (hd registry_example)
   \<and> point_ready (hd registry_example) 10
   \<and> \<not> point_ready (hd registry_example) (99 / 10)
   \<and> is_ready registry_example ''initialize'' 12
   \<and> (0::nat) < length registry_example2
   \<and> target_time (registry_example2 ! 0) \<noteq> None \<and> \<not> achieved (registry_example2 ! 0)
   \<and> achieved (fst (achieve_all registry_example2 10) ! 0)
   \<and> \<not> achieved (fst (achieve_all registry_example2 (99 / 10)) ! 0)
   \<and> (1::nat) < length registry_example2 \<and> achieved (registry_example2 ! 1)
   \<and> achieved (fst (achieve_all registry_example2 (99 / 10)) ! 1)
   \<and> (list_all (\<lambda>q. target_time q \<noteq> None) registry_example2)
   \<and> snd (achieve_all registry_example2 10)
   \<and> \<not> snd (achieve_all registry_example2 (99 / 10))
   \<and> \<not> snd (achieve_all (fst (achieve_all registry_example2 10)) 10)"
proof -
  let ?p = "hd registry_example"
  let ?r = registry_example2
  have h: "target_time ?p = Some 10"
    "find (\<lambda>q. label q = ''initialize'') registry_example = Some ?p"
    by (simp_all add: registry_example_def add_sync_pnt_def)
  note t = sync_point_readiness [of ?p 10 _ "''initialize''" registry_example]
  from t [of 10] h have 1: "point_ready ?p 10" by simp
  from t [of "99 / 10"] h have 2: "\<not> point_ready ?p (99 / 10)" by simp
  from t [of 12] h have 3: "is_ready registry_example ''initialize'' 12" by simp
  have r: "?r = [\<lparr>label = ''initialize'', target_time = Some 10, achieved = False\<rparr>,
      \<lparr>label = ''startup'', target_time = Some 3, achieved = True\<rparr>]"
    by (simp add: registry_example2_def registry_example_def add_sync_pnt_def)
  have g: "(0::nat) < length ?r" "target_time (?r ! 0) \<noteq> None" "\<not> achieved (?r ! 0)"
    "(1::nat) < length ?r" "achieved (?r ! 1)"
    "\<forall>q \<in> set ?r. target_time q \<noteq> None"
    "point_ready (?r ! 0) 10" "\<not> point_ready (?r ! 0) (99 / 10)"
    "\<not> point_ready (?r ! 1) (99 / 10) \<or> achieved (?r ! 1)"
    by (simp_all add: r point_ready_def)
  note u = sync_point_readiness [of _ _ _ _ ?r]
  from u [of _ _ 10] g have 4: "achieved (fst (achieve_all ?r 10) ! 0)"
    by blast
  from u [of _ _ "99 / 10"] g have 5: "\<not> achieved (fst (achieve_all ?r (99 / 10)) ! 0)"
    by blast
  from u [of _ _ "99 / 10"] g have 6: "achieved (fst (achieve_all ?r (99 / 10)) ! 1)"
    by blast
  have s: "set ?r = {?r ! 0, ?r ! 1}"
    by (simp add: r)
  from u [of _ _ 10] g have 7: "snd (achieve_all ?r 10)"
    unfolding s by blast
  from u [of _ _ "99 / 10"] g have 8: "\<not> snd (achieve_all ?r (99 / 10))"
    unfolding s by blast
  have 9: "\<not> snd (achieve_all (fst (achieve_all ?r 10)) 10)"
    by (simp add: r achieve_all_def eligible_def)
  have 10: "list_all (\<lambda>q. target_time q \<noteq> None) ?r"
    by (simp add: r)
  from h 1 2 3 g(1-5) 4 5 6 7 8 9 10 show ?thesis by blast
qed

section \<open>Properties of the compensation callbacks\<close>

lemma copy_mat33_eq [simp]: "copy_mat33 dst src = src"
  by (cases dst; cases src) (simp add: copy_mat33_def)

lemma load_lag_comp_data_frame:
  "de_entity (load_lag_comp_data X s) = de_entity (base_load_lag_comp_data X s)"
  "inertia_inv (load_lag_comp_data X s) = inertia_inv (base_load_lag_comp_data X s)"
  by (simp_all add: load_lag_comp_data_def Let_def)

lemma load_and_differentiate_frame:
  "de_entity (load_and_differentiate X s) = de_entity (base_load_lag_comp_data X s)"
  "inertia_inv (load_and_differentiate X s) = inertia_inv (base_load_lag_comp_data X s)"
  by (simp_all add: load_and_differentiate_def Let_def load_lag_comp_data_frame)

lemma unload_lag_comp_data_frame:
  "ownership (de_entity (unload_lag_comp_data X s)) =
     ownership (de_entity (base_unload_lag_comp_data X s))"
  "physical_data (de_entity (unload_lag_comp_data X s)) =
     physical_data (de_entity (base_unload_lag_comp_data X s))"
  "state_attr (de_entity (unload_lag_comp_data X s)) =
     state_attr (de_entity (base_unload_lag_comp_data X s))"
  "inertia_inv (unload_lag_comp_data X s) = inertia_inv (base_unload_lag_comp_data X s)"
  by (simp_all add: unload_lag_comp_data_def Let_def ownership_def)

lemma receive_inertia_step_frame:
  "de_entity (fst (receive_inertia_step X s)) = de_entity s"
  by (simp add: receive_inertia_step_def split: prod.splits)

lemma receive_after_compensation_ownership:
  assumes "callees_keep_ownership X"
  shows "ownership (de_entity (receive_after_compensation X s)) = ownership (de_entity s)"
  using assms
  by (simp add: receive_after_compensation_def receive_compensate_step_def
      callees_keep_ownership_def load_and_differentiate_frame)

lemma receive_after_compensation_inertia_inv:
  assumes "callees_keep_inertia_inv X"
  shows "inertia_inv (receive_after_compensation X s) = inertia_inv s"
  using assms
  by (simp add: receive_after_compensation_def receive_compensate_step_def
      callees_keep_inertia_inv_def load_and_differentiate_frame)

lemma ownership_inertia_attr:
  assumes "ownership e' = ownership e"
  shows "inertia_attr e' = inertia_attr e" and "state_attr e' = state_attr e"
  using assms by (simp_all add: ownership_def)

text \<open>The receive callback as its three blocks followed by the unload and the unpack.\<close>

lemma receive_lag_compensation_eq:
  "receive_lag_compensation X s =
     bind_result
       (entity_unpack_into_working_data X
          (de_entity (unload_lag_comp_data X
             (fst (receive_inertia_step X (receive_after_compensation X s))))))
       (\<lambda>ent. Inr ((unload_lag_comp_data X
                       (fst (receive_inertia_step X (receive_after_compensation X s))))
                      \<lparr>de_entity := ent\<rparr>,
                    snd (receive_compensate_step X (get_time X (de_entity s))
                           (get_scenario_time X)
                           (s\<lparr>compensate_dt := double_sub X (get_scenario_time X) (get_time X (de_entity s))\<rparr>))
                    @ snd (receive_inertia_step X (receive_after_compensation X s))))"
  by (simp add: receive_lag_compensation_def receive_after_compensation_def Let_def
      split: prod.splits)

lemma receive_lag_compensation_Inr:
  assumes "receive_lag_compensation X s = Inr (s', tr)"
  obtains ent where
    "entity_unpack_into_working_data X
       (de_entity (unload_lag_comp_data X
          (fst (receive_inertia_step X (receive_after_compensation X s))))) = Inr ent"
    "s' = (unload_lag_comp_data X
            (fst (receive_inertia_step X (receive_after_compensation X s))))\<lparr>de_entity := ent\<rparr>"
    "tr = snd (receive_compensate_step X (get_time X (de_entity s)) (get_scenario_time X)
                 (s\<lparr>compensate_dt := double_sub X (get_scenario_time X) (get_time X (de_entity s))\<rparr>))
          @ snd (receive_inertia_step X (receive_after_compensation X s))"
  using assms unfolding receive_lag_compensation_eq bind_result_Inr by auto

lemma send_lag_compensation_Inr:
  assumes "send_lag_compensation X s = Inr (s', tr)"
  obtains ent where
    "entity_pack_from_working_data X (de_entity s) = Inr ent"
    "s' = unload_lag_comp_data X
            (compensate X (get_scenario_time X) (double_add X (get_scenario_time X) (get_lookahead X))
               (load_and_differentiate X (s\<lparr>compensate_dt := get_lookahead X, de_entity := ent\<rparr>)))"
    "tr = [Compensate (get_scenario_time X) (double_add X (get_scenario_time X) (get_lookahead X))]"
  using assms by (auto simp: send_lag_compensation_def Let_def bind_result_Inr)

lemma compensate_events:
  "set (snd (receive_compensate_step X t0 t1 s)) =
     (if received_this_cycle (state_attr (de_entity s)) then {Compensate t0 t1} else {})"
  by (simp add: receive_compensate_step_def is_received_def)

lemma inertia_events:
  "Compensate t0 t1 \<notin> set (snd (receive_inertia_step X s))"
  "(\<exists>m. Invert_inertia m \<in> set (snd (receive_inertia_step X s))) \<longleftrightarrow>
     received_this_cycle (inertia_attr (de_entity s))"
  "Invert_inertia m \<notin> set (snd (receive_compensate_step X t0 t1 s))"
  "Report_singular_inertia \<notin> set (snd (receive_compensate_step X t0 t1 s))"
  by (auto simp: receive_inertia_step_def receive_compensate_step_def is_received_def
      split: prod.splits)

text \<open>
  Claim C8. Provided the functions the callbacks call leave the attribute records
  alone, the send and the receive callback do so too: the three flags of each of
  the twelve attribute records are the same after the call as before it.
\<close>

theorem lag_compensation_keeps_ownership:
  assumes "callees_keep_ownership X" and "entity_keeps_ownership X"
  shows "(\<forall>s' tr. receive_lag_compensation X s = Inr (s', tr) \<longrightarrow>
            ownership (de_entity s') = ownership (de_entity s))
       \<and> (\<forall>s' tr. send_lag_compensation X s = Inr (s', tr) \<longrightarrow>
            ownership (de_entity s') = ownership (de_entity s))"
proof (intro conjI allI impI)
  fix s' tr
  assume "receive_lag_compensation X s = Inr (s', tr)"
  then obtain ent where
    u: "entity_unpack_into_working_data X
       (de_entity (unload_lag_comp_data X
          (fst (receive_inertia_step X (receive_after_compensation X s))))) = Inr ent"
    and s': "s' = (unload_lag_comp_data X
            (fst (receive_inertia_step X (receive_after_compensation X s))))\<lparr>de_entity := ent\<rparr>"
    by (rule receive_lag_compensation_Inr)
  from u assms(2) have "ownership ent =
      ownership (de_entity (unload_lag_comp_data X
          (fst (receive_inertia_step X (receive_after_compensation X s)))))"
    unfolding entity_keeps_ownership_def by blast
  also have "\<dots> = ownership (de_entity (fst (receive_inertia_step X (receive_after_compensation X s))))"
    using assms(1) by (simp add: unload_lag_comp_data_frame callees_keep_ownership_def)
  also have "\<dots> = ownership (de_entity s)"
    by (simp add: receive_inertia_step_frame receive_after_compensation_ownership [OF assms(1)])
  finally show "ownership (de_entity s') = ownership (de_entity s)"
    by (simp add: s')
next
  fix s' tr
  assume "send_lag_compensation X s = Inr (s', tr)"
  then obtain ent where
    p: "entity_pack_from_working_data X (de_entity s) = Inr ent"
    and s': "s' = unload_lag_comp_data X
            (compensate X (get_scenario_time X) (double_add X (get_scenario_time X) (get_lookahead X))
               (load_and_differentiate X (s\<lparr>compensate_dt := get_lookahead X, de_entity := ent\<rparr>)))"
    by (rule send_lag_compensation_Inr)
  from p assms(2) have "ownership ent = ownership (de_entity s)"
    unfolding entity_keeps_ownership_def by blast
  with assms(1) show "ownership (de_entity s') = ownership (de_entity s)"
    by (simp add: s' unload_lag_comp_data_frame callees_keep_ownership_def
        load_and_differentiate_frame)
qed

text \<open>
  The inertia block in terms of the matrix the compensation object holds when the
  block is reached. Provided the functions the receive callback calls leave the
  attribute records and the inverse alone: when the inertia attribute was received
  and \<^verbatim>\<open>dm_invert_symm\<close> does not report success on the held matrix, the
  callback leaves the zero matrix as the inverse and has sent the error message; the
  inversion is called exactly when the inertia attribute was received; when it was
  not, the inverse is the one from before the call and no message is sent; and the
  callback ends abnormally only if the entity's unpack does.
\<close>

lemma held_inertia_fallback:
  assumes "callees_keep_ownership X" and "callees_keep_inertia_inv X"
  shows "(\<forall>s' tr. receive_lag_compensation X s = Inr (s', tr)
              \<and> received_this_cycle (inertia_attr (de_entity s))
              \<and> fst (dm_invert_symm X (inertia_inv (receive_after_compensation X s))
                       (inertia (receive_after_compensation X s))) \<noteq> TM_SUCCESS X \<longrightarrow>
            inertia_inv s' = M_INIT \<and> Report_singular_inertia \<in> set tr)
       \<and> (\<forall>s' tr. receive_lag_compensation X s = Inr (s', tr) \<longrightarrow>
            ((\<exists>m. Invert_inertia m \<in> set tr) \<longleftrightarrow>
               received_this_cycle (inertia_attr (de_entity s))))
       \<and> (\<forall>s' tr. receive_lag_compensation X s = Inr (s', tr)
              \<and> \<not> received_this_cycle (inertia_attr (de_entity s)) \<longrightarrow>
            inertia_inv s' = inertia_inv s \<and> Report_singular_inertia \<notin> set tr)
       \<and> (\<forall>err. receive_lag_compensation X s = Inl err \<longrightarrow>
            (\<exists>e. entity_unpack_into_working_data X e = Inl err))"
proof -
  let ?s2 = "receive_after_compensation X s"
  have flag: "inertia_attr (de_entity ?s2) = inertia_attr (de_entity s)"
    by (rule ownership_inertia_attr(1) [OF receive_after_compensation_ownership [OF assms(1)]])
  have unl: "\<And>a. inertia_inv (unload_lag_comp_data X a) = inertia_inv a"
    using assms(2) by (simp add: unload_lag_comp_data_frame callees_keep_inertia_inv_def)
  have 1: "inertia_inv s' = M_INIT \<and> Report_singular_inertia \<in> set tr"
    if "receive_lag_compensation X s = Inr (s', tr)"
      and "received_this_cycle (inertia_attr (de_entity s))"
      and "fst (dm_invert_symm X (inertia_inv ?s2) (inertia ?s2)) \<noteq> TM_SUCCESS X"
    for s' tr
  proof -
    from that(1) obtain ent where
      s': "s' = (unload_lag_comp_data X (fst (receive_inertia_step X ?s2)))\<lparr>de_entity := ent\<rparr>"
      and tr: "tr = snd (receive_compensate_step X (get_time X (de_entity s))
                 (get_scenario_time X)
                 (s\<lparr>compensate_dt := double_sub X (get_scenario_time X) (get_time X (de_entity s))\<rparr>))
          @ snd (receive_inertia_step X ?s2)"
      by (rule receive_lag_compensation_Inr)
    from that(2,3) flag
    have "receive_inertia_step X ?s2 =
        (?s2\<lparr>inertia_inv := M_INIT\<rparr>, [Invert_inertia (inertia ?s2), Report_singular_inertia])"
      by (auto simp: receive_inertia_step_def is_received_def split: prod.splits)
    then show ?thesis by (simp add: s' tr unl)
  qed
  have 2: "(\<exists>m. Invert_inertia m \<in> set tr) \<longleftrightarrow> received_this_cycle (inertia_attr (de_entity s))"
    if "receive_lag_compensation X s = Inr (s', tr)" for s' tr
  proof -
    from that obtain ent where
      tr: "tr = snd (receive_compensate_step X (get_time X (de_entity s))
                 (get_scenario_time X)
                 (s\<lparr>compensate_dt := double_sub X (get_scenario_time X) (get_time X (de_entity s))\<rparr>))
          @ snd (receive_inertia_step X ?s2)"
      by (rule receive_lag_compensation_Inr)
    show ?thesis
      using inertia_events(2) [of X ?s2] by (simp add: tr inertia_events(3) flag)
  qed
  have 3: "inertia_inv s' = inertia_inv s \<and> Report_singular_inertia \<notin> set tr"
    if "receive_lag_compensation X s = Inr (s', tr)"
      and "\<not> received_this_cycle (inertia_attr (de_entity s))" for s' tr
  proof -
    from that(1) obtain ent where
      s': "s' = (unload_lag_comp_data X (fst (receive_inertia_step X ?s2)))\<lparr>de_entity := ent\<rparr>"
      and tr: "tr = snd (receive_compensate_step X (get_time X (de_entity s))
                 (get_scenario_time X)
                 (s\<lparr>compensate_dt := double_sub X (get_scenario_time X) (get_time X (de_entity s))\<rparr>))
          @ snd (receive_inertia_step X ?s2)"
      by (rule receive_lag_compensation_Inr)
    from that(2) flag have "receive_inertia_step X ?s2 = (?s2, [])"
      by (simp add: receive_inertia_step_def is_received_def)
    then show ?thesis
      by (simp add: s' tr unl inertia_events(4)
          receive_after_compensation_inertia_inv [OF assms(2)])
  qed
  have 4: "\<exists>e. entity_unpack_into_working_data X e = Inl err"
    if "receive_lag_compensation X s = Inl err" for err
    using that unfolding receive_lag_compensation_eq bind_result_def
    by (auto split: sum.splits)
  from 1 2 3 4 show ?thesis by blast
qed

text \<open>
  Which matrix the object holds when the inertia block is reached: the one loaded
  from the packing data when the state attribute was received, and the one it held
  before the call when it was not.
\<close>

lemma receive_after_compensation_unreceived:
  assumes "\<not> received_this_cycle (state_attr (de_entity s))"
  shows "receive_after_compensation X s =
           s\<lparr>compensate_dt := double_sub X (get_scenario_time X) (get_time X (de_entity s))\<rparr>"
  using assms
  by (simp add: receive_after_compensation_def receive_compensate_step_def is_received_def)

lemma receive_after_compensation_received:
  assumes "received_this_cycle (state_attr (de_entity s))"
  shows "receive_after_compensation X s =
           compensate X (get_time X (de_entity s)) (get_scenario_time X)
             (load_and_differentiate X
                (s\<lparr>compensate_dt :=
                     double_sub X (get_scenario_time X) (get_time X (de_entity s))\<rparr>))"
  using assms
  by (simp add: receive_after_compensation_def receive_compensate_step_def is_received_def)

lemma load_lag_comp_data_inertia:
  "inertia (load_and_differentiate X s) =
     DynamicalEntityData.inertia (de_packing_data (de_entity (base_load_lag_comp_data X s)))"
  by (simp add: load_and_differentiate_def load_lag_comp_data_def Let_def)

text \<open>
  With the inertia attribute received and the state attribute not, the matrix
  handed to \<^verbatim>\<open>dm_invert_symm\<close> is the one the object held before the call,
  whatever the packing data hold, and only its inversion decides the fallback.
\<close>

lemma receive_inverts_held_matrix:
  assumes "\<not> received_this_cycle (state_attr (de_entity s))"
    and "received_this_cycle (inertia_attr (de_entity s))"
    and "receive_lag_compensation X s = Inr (s', tr)"
  shows "tr = (if fst (dm_invert_symm X (inertia_inv s) (inertia s)) \<noteq> TM_SUCCESS X
               then [Invert_inertia (inertia s), Report_singular_inertia]
               else [Invert_inertia (inertia s)])"
proof -
  from assms(3) obtain ent where
    tr: "tr = snd (receive_compensate_step X (get_time X (de_entity s))
                 (get_scenario_time X)
                 (s\<lparr>compensate_dt :=
                      double_sub X (get_scenario_time X) (get_time X (de_entity s))\<rparr>))
          @ snd (receive_inertia_step X (receive_after_compensation X s))"
    by (rule receive_lag_compensation_Inr)
  from assms(1,2) show ?thesis
    unfolding tr receive_after_compensation_unreceived [OF assms(1)]
    by (auto simp: receive_compensate_step_def receive_inertia_step_def is_received_def
        split: prod.splits)
qed
lemma receive_inertia_step_lag_comp_data:
  "lag_comp_data (fst (receive_inertia_step X s)) = lag_comp_data s"
  by (simp add: receive_inertia_step_def split: prod.splits)

lemma unload_lag_comp_data_packing:
  "pe_packing_data (de_entity (unload_lag_comp_data X s)) =
     pe_packing_data (de_entity (base_unload_lag_comp_data X s))"
  by (simp add: unload_lag_comp_data_def Let_def)

lemma unpack_state_needs_working_data:
  assumes "unpack_into_working_data e = Inr e'" and "received_this_cycle (state_attr e)"
  shows "physical_data e \<noteq> None"
proof -
  from assms(1) obtain e1 where "unpack_state_step e = Inr e1"
    by (rule unpack_into_working_data_steps)
  with assms(2) show ?thesis
    by (auto simp: unpack_state_step_def update_working_def is_received_def
        split: option.splits)
qed

lemma unpack_state_received:
  assumes "unpack_into_working_data e = Inr e'" and "received_this_cycle (state_attr e)"
  shows "map_option state (physical_data e') = Some (state (pe_packing_data e))"
  using unpack_state_needs_working_data [OF assms] assms(2)
  by (cases "physical_data e") (simp_all add: unpack_into_working_data_effect(2) [OF assms(1)])

lemma unpack_state_unreceived:
  assumes "unpack_into_working_data e = Inr e'" and "\<not> received_this_cycle (state_attr e)"
  shows "map_option state (physical_data e') = map_option state (physical_data e)"
  using assms(2)
  by (cases "physical_data e") (simp_all add: unpack_into_working_data_effect(2) [OF assms(1)])

text \<open>
  Claim C5. Provided the entity's pack and unpack are those of
  \<^verbatim>\<open>PhysicalEntity\<close>, the base class's unload copies the compensated state to
  the packing data, and the functions called leave the attribute records alone:
  the receive callback calls \<^verbatim>\<open>compensate\<close> exactly when the state attribute was
  received, from the time tag of the entity's data to the scenario time, and the
  working state after the callback is then the state that this call of
  \<^verbatim>\<open>compensate\<close> leaves, computed from the loaded data; when the state attribute
  was not received, nothing is loaded or compensated (only the saved time step of
  the object changes before the inertia block) and the working state is the one
  from before the call. The send callback calls \<^verbatim>\<open>compensate\<close> once, from the
  scenario time to the (rounded) sum of the scenario time and the lookahead, on the
  data just packed from the working data, and the packing state after the callback
  is the state that this call leaves.
\<close>

theorem compensation_gated_by_state_attribute:
  assumes "entity_is_PhysicalEntity X" and "unload_publishes_state X"
    and "callees_keep_ownership X"
  shows "(\<forall>s' tr. receive_lag_compensation X s = Inr (s', tr) \<longrightarrow>
            ((\<exists>t0 t1. Compensate t0 t1 \<in> set tr) \<longleftrightarrow>
               received_this_cycle (state_attr (de_entity s)))
          \<and> (\<forall>t0 t1. Compensate t0 t1 \<in> set tr \<longrightarrow>
               t0 = get_time X (de_entity s) \<and> t1 = get_scenario_time X)
          \<and> (received_this_cycle (state_attr (de_entity s)) \<longrightarrow>
               map_option state (physical_data (de_entity s')) =
               Some (lag_comp_data
                 (compensate X (get_time X (de_entity s)) (get_scenario_time X)
                    (load_and_differentiate X
                       (s\<lparr>compensate_dt :=
                            double_sub X (get_scenario_time X) (get_time X (de_entity s))\<rparr>)))))
          \<and> (\<not> received_this_cycle (state_attr (de_entity s)) \<longrightarrow>
               map_option state (physical_data (de_entity s')) =
               map_option state (physical_data (de_entity s))
             \<and> receive_after_compensation X s =
               s\<lparr>compensate_dt :=
                   double_sub X (get_scenario_time X) (get_time X (de_entity s))\<rparr>))
       \<and> (\<forall>s' tr. send_lag_compensation X s = Inr (s', tr) \<longrightarrow>
            tr = [Compensate (get_scenario_time X)
                    (double_add X (get_scenario_time X) (get_lookahead X))]
          \<and> (\<exists>ent. pack_from_working_data (get_scenario_time X) (de_entity s) = Inr ent
               \<and> state (pe_packing_data (de_entity s')) =
                  lag_comp_data
                    (compensate X (get_scenario_time X)
                       (double_add X (get_scenario_time X) (get_lookahead X))
                       (load_and_differentiate X
                          (s\<lparr>compensate_dt := get_lookahead X, de_entity := ent\<rparr>)))))"
proof -
  let ?s1 = "s\<lparr>compensate_dt :=
    double_sub X (get_scenario_time X) (get_time X (de_entity s))\<rparr>"
  let ?s2 = "receive_after_compensation X s"
  let ?s3 = "fst (receive_inertia_step X ?s2)"
  let ?s4 = "unload_lag_comp_data X ?s3"
  have unpack: "entity_unpack_into_working_data X = unpack_into_working_data"
    and pack: "entity_pack_from_working_data X = pack_from_working_data (get_scenario_time X)"
    using assms(1) by (simp_all add: entity_is_PhysicalEntity_def)
  have unl: "state (pe_packing_data (de_entity (unload_lag_comp_data X a))) = lag_comp_data a"
    "physical_data (de_entity (unload_lag_comp_data X a)) = physical_data (de_entity a)"
    "state_attr (de_entity (unload_lag_comp_data X a)) = state_attr (de_entity a)" for a
    using assms(2)
    by (simp_all add: unload_publishes_state_def unload_lag_comp_data_frame
        unload_lag_comp_data_packing)
  have flag: "state_attr (de_entity ?s4) = state_attr (de_entity s)"
    by (simp add: unl receive_inertia_step_frame
        ownership_inertia_attr(2) [OF receive_after_compensation_ownership [OF assms(3)]])
  have ev: "set tr \<inter> {ev. \<exists>t0 t1. ev = Compensate t0 t1} =
      (if received_this_cycle (state_attr (de_entity s))
       then {Compensate (get_time X (de_entity s)) (get_scenario_time X)} else {})"
    if "receive_lag_compensation X s = Inr (s', tr)" for s' tr
  proof -
    from that obtain ent where
      tr: "tr = snd (receive_compensate_step X (get_time X (de_entity s))
                 (get_scenario_time X) ?s1)
          @ snd (receive_inertia_step X ?s2)"
      by (rule receive_lag_compensation_Inr)
    show ?thesis
      using inertia_events(1) [of _ _ X ?s2]
      by (auto simp: tr compensate_events)
  qed
  have 1: "(\<exists>t0 t1. Compensate t0 t1 \<in> set tr) \<longleftrightarrow>
      received_this_cycle (state_attr (de_entity s))"
    if "receive_lag_compensation X s = Inr (s', tr)" for s' tr
    using ev [OF that] by (auto split: if_splits)
  have 2: "t0 = get_time X (de_entity s) \<and> t1 = get_scenario_time X"
    if "receive_lag_compensation X s = Inr (s', tr)" and "Compensate t0 t1 \<in> set tr"
    for s' tr t0 t1
    using ev [OF that(1)] that(2) by (auto split: if_splits)
  have 3: "map_option state (physical_data (de_entity s')) =
      Some (lag_comp_data
        (compensate X (get_time X (de_entity s)) (get_scenario_time X)
           (load_and_differentiate X ?s1)))"
    if r: "receive_lag_compensation X s = Inr (s', tr)"
      and y: "received_this_cycle (state_attr (de_entity s))" for s' tr
  proof -
    from r obtain ent where
      u: "entity_unpack_into_working_data X (de_entity ?s4) = Inr ent"
      and s': "s' = ?s4\<lparr>de_entity := ent\<rparr>"
      by (rule receive_lag_compensation_Inr)
    from u have "unpack_into_working_data (de_entity ?s4) = Inr ent"
      by (simp add: unpack)
    from unpack_state_received [OF this] y flag
    have "map_option state (physical_data ent) = Some (lag_comp_data ?s2)"
      by (simp add: unl receive_inertia_step_lag_comp_data)
    then show ?thesis
      by (simp add: s' receive_after_compensation_received [OF y])
  qed
  have 4: "map_option state (physical_data (de_entity s')) =
      map_option state (physical_data (de_entity s))
      \<and> receive_after_compensation X s = ?s1"
    if r: "receive_lag_compensation X s = Inr (s', tr)"
      and n: "\<not> received_this_cycle (state_attr (de_entity s))" for s' tr
  proof -
    from r obtain ent where
      u: "entity_unpack_into_working_data X (de_entity ?s4) = Inr ent"
      and s': "s' = ?s4\<lparr>de_entity := ent\<rparr>"
      by (rule receive_lag_compensation_Inr)
    note s2 = receive_after_compensation_unreceived [OF n]
    from u have "unpack_into_working_data (de_entity ?s4) = Inr ent"
      by (simp add: unpack)
    from unpack_state_unreceived [OF this] n flag
    have "map_option state (physical_data ent) = map_option state (physical_data (de_entity ?s4))"
      by simp
    also have "physical_data (de_entity ?s4) = physical_data (de_entity s)"
      by (simp add: unl receive_inertia_step_frame s2)
    finally show ?thesis
      by (simp add: s' s2)
  qed
  have 5: "tr = [Compensate (get_scenario_time X)
                    (double_add X (get_scenario_time X) (get_lookahead X))]
      \<and> (\<exists>ent. pack_from_working_data (get_scenario_time X) (de_entity s) = Inr ent
           \<and> state (pe_packing_data (de_entity s')) =
              lag_comp_data
                (compensate X (get_scenario_time X)
                   (double_add X (get_scenario_time X) (get_lookahead X))
                   (load_and_differentiate X
                      (s\<lparr>compensate_dt := get_lookahead X, de_entity := ent\<rparr>))))"
    if "send_lag_compensation X s = Inr (s', tr)" for s' tr
  proof -
    from that obtain ent where
      "entity_pack_from_working_data X (de_entity s) = Inr ent"
      and "s' = unload_lag_comp_data X
            (compensate X (get_scenario_time X)
               (double_add X (get_scenario_time X) (get_lookahead X))
               (load_and_differentiate X (s\<lparr>compensate_dt := get_lookahead X, de_entity := ent\<rparr>)))"
      and "tr = [Compensate (get_scenario_time X)
                   (double_add X (get_scenario_time X) (get_lookahead X))]"
      by (rule send_lag_compensation_Inr)
    then show ?thesis
      by (auto simp: pack unl)
  qed
  from 1 2 3 4 5 show ?thesis by blast
qed

subsection \<open>The callbacks at the concrete inputs\<close>

lemma pack_keeps_ownership:
  assumes "pack_from_working_data t e = Inr e'"
  shows "ownership e' = ownership e"
  using assms
  by (auto simp: pack_from_working_data_def bind_result_Inr ownership_def split: option.splits)

lemma unpack_keeps_ownership:
  assumes "unpack_into_working_data e = Inr e'"
  shows "ownership e' = ownership e"
  by (subst unpack_into_working_data_effect(1) [OF assms]) (simp add: ownership_def)

lemma example_callees_keep_ownership: "callees_keep_ownership externals_example"
  by (simp add: callees_keep_ownership_def externals_example_def ownership_def)

lemma example_entity_keeps_ownership: "entity_keeps_ownership externals_example"
  by (simp add: entity_keeps_ownership_def externals_example_def pack_keeps_ownership
      unpack_keeps_ownership)

lemma example_callees_keep_inertia_inv: "callees_keep_inertia_inv externals_example"
  by (simp add: callees_keep_inertia_inv_def externals_example_def)

lemma example_entity_is_PhysicalEntity: "entity_is_PhysicalEntity externals_example"
  by (simp add: entity_is_PhysicalEntity_def externals_example_def)

lemma example_unload_publishes_state: "unload_publishes_state externals_example"
  by (simp add: unload_publishes_state_def externals_example_def)

lemma unpack_returns_without_identity:
  assumes "physical_data e \<noteq> None"
    and "\<not> received_this_cycle (name_attr e)" and "\<not> received_this_cycle (type_attr e)"
    and "\<not> received_this_cycle (status_attr e)"
    and "\<not> received_this_cycle (parent_frame_attr e)"
  shows "\<exists>e'. unpack_into_working_data e = Inr e'"
  using assms
  by (auto simp: unpack_into_working_data_def unpack_state_step_def unpack_name_step_def
      unpack_type_step_def unpack_status_step_def unpack_parent_frame_step_def
      unpack_body_frame_step_def update_working_def is_received_def)

lemma example_de_entity_frame:
  "de_entity (compensate externals_example t0 t1 s) = de_entity s"
  "de_entity (base_load_lag_comp_data externals_example s) = de_entity s"
  "physical_data (de_entity (base_unload_lag_comp_data externals_example s)) =
     physical_data (de_entity s)"
  by (simp_all add: externals_example_def)

lemma example_receive_after_compensation_de_entity:
  "de_entity (receive_after_compensation externals_example s) = de_entity s"
  by (simp add: receive_after_compensation_def receive_compensate_step_def
      load_and_differentiate_frame example_de_entity_frame)

lemma example_receive_returns_general:
  assumes "physical_data (de_entity s) \<noteq> None"
    and "\<not> received_this_cycle (name_attr (de_entity s))"
    and "\<not> received_this_cycle (type_attr (de_entity s))"
    and "\<not> received_this_cycle (status_attr (de_entity s))"
    and "\<not> received_this_cycle (parent_frame_attr (de_entity s))"
  shows "\<exists>s' tr. receive_lag_compensation externals_example s = Inr (s', tr)"
proof -
  let ?X = externals_example
  let ?e = "de_entity (unload_lag_comp_data ?X
     (fst (receive_inertia_step ?X (receive_after_compensation ?X s))))"
  have o: "ownership ?e = ownership (de_entity s)"
    using example_callees_keep_ownership
    by (simp add: unload_lag_comp_data_frame receive_inertia_step_frame
        receive_after_compensation_ownership callees_keep_ownership_def)
  have p: "physical_data ?e = physical_data (de_entity s)"
    by (simp add: unload_lag_comp_data_frame receive_inertia_step_frame
        example_de_entity_frame example_receive_after_compensation_de_entity)
  from o assms(2-5)
  have "\<not> received_this_cycle (name_attr ?e)" "\<not> received_this_cycle (type_attr ?e)"
    "\<not> received_this_cycle (status_attr ?e)" "\<not> received_this_cycle (parent_frame_attr ?e)"
    by (simp_all add: ownership_def)
  with p assms(1) obtain e' where "unpack_into_working_data ?e = Inr e'"
    using unpack_returns_without_identity [of ?e] by auto
  then show ?thesis
    unfolding receive_lag_compensation_eq
    by (simp add: externals_example_def)
qed

lemma example_receive_returns:
  "\<exists>s' tr. receive_lag_compensation externals_example (lag_comp_example a b) = Inr (s', tr)"
  by (rule example_receive_returns_general)
    (simp_all add: lag_comp_example_def de_entity_example_def attr_def)

lemma example_send_returns:
  "\<exists>s' tr. send_lag_compensation externals_example (lag_comp_example a b) = Inr (s', tr)"
proof -
  have "\<exists>e'. pack_from_working_data 10 (de_entity (lag_comp_example a b)) = Inr e'"
    by (subst pack_from_working_data_eq [where w = working_example])
      (simp_all add: lag_comp_example_def de_entity_example_def working_example_def
        packing_example_def)
  then show ?thesis
    by (auto simp: send_lag_compensation_def Let_def externals_example_def)
qed

lemma example_times:
  "get_time externals_example (de_entity (lag_comp_example a b)) = 9"
  "get_scenario_time externals_example = 10"
  "get_lookahead externals_example = 1 / 2"
  "double_add externals_example x y = x + y"
  "double_sub externals_example x y = x - y"
  by (simp_all add: externals_example_def lag_comp_example_def de_entity_example_def
      packing_example_def)

lemma example_inversion:
  "dm_invert_symm externals_example old m =
     (if det33 m = 0 then (1, old) else (0, adjugate33 m (det33 m)))"
  "TM_SUCCESS externals_example = 0"
  "inertia_inv (base_unload_lag_comp_data externals_example s) = inertia_inv s"
  "inertia (base_unload_lag_comp_data externals_example s) = inertia s"
  by (simp_all add: externals_example_def)

lemma example_lag_comp_data:
  "lag_comp_data (compensate externals_example t0 t1 (load_and_differentiate externals_example s)) =
     (state (pe_packing_data (de_entity s)))
       \<lparr>pos := advance (pos (state (pe_packing_data (de_entity s))))
                 (vel (state (pe_packing_data (de_entity s)))) (t1 - t0),
        time := t1\<rparr>"
  by (simp add: externals_example_def load_and_differentiate_def load_lag_comp_data_def Let_def)

lemma example_flags:
  "received_this_cycle (state_attr (de_entity (lag_comp_example a b))) = a"
  "received_this_cycle (inertia_attr (de_entity (lag_comp_example a b))) = b"
  by (simp_all add: lag_comp_example_def de_entity_example_def attr_def)

lemma example_working_state:
  "map_option state (physical_data (de_entity (lag_comp_example a b))) =
     Some (state working_example)"
  by (simp add: lag_comp_example_def de_entity_example_def)

lemma example_inversion_fails:
  "fst (dm_invert_symm externals_example
          (inertia_inv (receive_after_compensation externals_example (lag_comp_example True True)))
          (inertia (receive_after_compensation externals_example (lag_comp_example True True))))
     \<noteq> TM_SUCCESS externals_example"
proof -
  have "inertia (receive_after_compensation externals_example (lag_comp_example True True)) =
      singular_inertia"
    by (simp add: receive_after_compensation_def receive_compensate_step_def is_received_def
        example_flags load_and_differentiate_def load_lag_comp_data_def Let_def)
      (simp add: externals_example_def lag_comp_example_def de_entity_example_def)
  moreover have "det33 singular_inertia = 0"
    by (simp add: singular_inertia_def)
  ultimately show ?thesis
    by (simp add: externals_example_def)
qed

theorem lag_compensation_keeps_ownership_witness:
  "callees_keep_ownership externals_example \<and> entity_keeps_ownership externals_example
   \<and> (\<exists>s' tr. receive_lag_compensation externals_example (lag_comp_example True True)
                 = Inr (s', tr)
        \<and> ownership (de_entity s') = ownership (de_entity (lag_comp_example True True)))
   \<and> (\<exists>s' tr. send_lag_compensation externals_example (lag_comp_example True True)
                 = Inr (s', tr)
        \<and> ownership (de_entity s') = ownership (de_entity (lag_comp_example True True)))"
  using lag_compensation_keeps_ownership
      [OF example_callees_keep_ownership example_entity_keeps_ownership,
        of "lag_comp_example True True"]
    example_receive_returns [of True True] example_send_returns [of True True]
    example_callees_keep_ownership example_entity_keeps_ownership
  by blast

text \<open>The fallback on the held matrix at the concrete inputs.\<close>

lemma held_inertia_fallback_example:
  "callees_keep_ownership externals_example \<and> callees_keep_inertia_inv externals_example
   \<and> (\<exists>s' tr. receive_lag_compensation externals_example (lag_comp_example True True)
                 = Inr (s', tr)
        \<and> received_this_cycle (inertia_attr (de_entity (lag_comp_example True True)))
        \<and> fst (dm_invert_symm externals_example
                 (inertia_inv (receive_after_compensation externals_example
                    (lag_comp_example True True)))
                 (inertia (receive_after_compensation externals_example
                    (lag_comp_example True True))))
            \<noteq> TM_SUCCESS externals_example
        \<and> inertia_inv s' = M_INIT \<and> Report_singular_inertia \<in> set tr)
   \<and> (\<exists>s' tr. receive_lag_compensation externals_example (lag_comp_example True False)
                 = Inr (s', tr)
        \<and> \<not> received_this_cycle (inertia_attr (de_entity (lag_comp_example True False)))
        \<and> inertia_inv s' = identity_matrix \<and> Report_singular_inertia \<notin> set tr)"
proof -
  note t = held_inertia_fallback
    [OF example_callees_keep_ownership example_callees_keep_inertia_inv]
  from example_receive_returns [of True True] obtain s' tr where
    r: "receive_lag_compensation externals_example (lag_comp_example True True) = Inr (s', tr)"
    by blast
  have f: "received_this_cycle (inertia_attr (de_entity (lag_comp_example True True)))"
    by (simp add: example_flags)
  from t [of "lag_comp_example True True"] r f example_inversion_fails
  have 1: "inertia_inv s' = M_INIT \<and> Report_singular_inertia \<in> set tr"
    by blast
  from example_receive_returns [of True False] obtain s'' tr' where
    r': "receive_lag_compensation externals_example (lag_comp_example True False) = Inr (s'', tr')"
    by blast
  have f': "\<not> received_this_cycle (inertia_attr (de_entity (lag_comp_example True False)))"
    by (simp add: example_flags)
  from t [of "lag_comp_example True False"] r' f'
  have "inertia_inv s'' = inertia_inv (lag_comp_example True False)
      \<and> Report_singular_inertia \<notin> set tr'"
    by blast
  then have 2: "inertia_inv s'' = identity_matrix \<and> Report_singular_inertia \<notin> set tr'"
    by (simp add: lag_comp_example_def)
  from r f example_inversion_fails 1 r' f' 2
    example_callees_keep_ownership example_callees_keep_inertia_inv
  show ?thesis by blast
qed

text \<open>
  Claim C4 at its failing input. The compensation object is as constructed, the
  inertia attribute was received with a singular matrix in the packing data, and the
  state attribute was not received. The callback inverts the identity it still
  holds: the inverse is the identity and not the zero matrix, no error is reported,
  and the unload replaces the received matrix in the packing data by the identity.
\<close>

theorem received_singular_inertia_not_inverted:
  "\<exists>s' tr. receive_lag_compensation externals_example stale_inertia_example = Inr (s', tr)
     \<and> received_this_cycle (inertia_attr (de_entity stale_inertia_example))
     \<and> \<not> received_this_cycle (state_attr (de_entity stale_inertia_example))
     \<and> DynamicalEntityData.inertia (de_packing_data (de_entity stale_inertia_example)) =
         singular_inertia
     \<and> det33 singular_inertia = 0
     \<and> fst (dm_invert_symm externals_example M_INIT singular_inertia) \<noteq>
         TM_SUCCESS externals_example
     \<and> tr = [Invert_inertia identity_matrix]
     \<and> inertia_inv s' = identity_matrix
     \<and> inertia_inv s' \<noteq> M_INIT
     \<and> DynamicalEntityData.inertia (de_packing_data (de_entity s')) = identity_matrix"
proof -
  let ?X = externals_example
  let ?s = stale_inertia_example
  let ?s1 = "?s\<lparr>compensate_dt :=
    double_sub ?X (get_scenario_time ?X) (get_time ?X (de_entity ?s))\<rparr>"
  have e: "de_entity ?s = de_entity_example False True"
    by (simp add: stale_inertia_example_def lag_comp_example_def)
  have f: "received_this_cycle (inertia_attr (de_entity ?s))"
    "\<not> received_this_cycle (state_attr (de_entity ?s))"
    "DynamicalEntityData.inertia (de_packing_data (de_entity ?s)) = singular_inertia"
    by (simp_all add: e de_entity_example_def attr_def)
  have d: "det33 singular_inertia = 0" "det33 identity_matrix = 1"
    "adjugate33 identity_matrix 1 = identity_matrix" "identity_matrix \<noteq> M_INIT"
    by (simp_all add: singular_inertia_def identity_matrix_def M_INIT_def)
  have h: "inertia ?s = identity_matrix" "inertia_inv ?s = M_INIT"
    by (simp_all add: stale_inertia_example_def)
  have "\<exists>s' tr. receive_lag_compensation ?X ?s = Inr (s', tr)"
    by (rule example_receive_returns_general) (simp_all add: e de_entity_example_def attr_def)
  then obtain s' tr where r: "receive_lag_compensation ?X ?s = Inr (s', tr)"
    by blast
  note s2 = receive_after_compensation_unreceived [OF f(2), of ?X]
  have step: "receive_inertia_step ?X ?s1 =
      (?s1\<lparr>inertia_inv := identity_matrix\<rparr>, [Invert_inertia identity_matrix])"
    using f(1)
    by (simp add: receive_inertia_step_def is_received_def example_inversion h d)
  from r obtain ent where
    u: "entity_unpack_into_working_data ?X
       (de_entity (unload_lag_comp_data ?X
          (fst (receive_inertia_step ?X (receive_after_compensation ?X ?s))))) = Inr ent"
    and s': "s' = (unload_lag_comp_data ?X
            (fst (receive_inertia_step ?X (receive_after_compensation ?X ?s))))\<lparr>de_entity := ent\<rparr>"
    by (rule receive_lag_compensation_Inr)
  from receive_inverts_held_matrix [OF f(2) f(1) r]
  have tr: "tr = [Invert_inertia identity_matrix]"
    by (simp add: h example_inversion d)
  have inv: "inertia_inv s' = identity_matrix"
    by (simp add: s' s2 step unload_lag_comp_data_frame example_inversion)
  from u have "unpack_into_working_data
       (de_entity (unload_lag_comp_data ?X (?s1\<lparr>inertia_inv := identity_matrix\<rparr>))) = Inr ent"
    using example_entity_is_PhysicalEntity
    by (simp add: s2 step entity_is_PhysicalEntity_def)
  note eff = unpack_into_working_data_effect(1) [OF this]
  have "DynamicalEntityData.inertia (de_packing_data ent) = identity_matrix"
    by (subst eff)
      (simp add: unload_lag_comp_data_def Let_def example_inversion h)
  then have pk: "DynamicalEntityData.inertia (de_packing_data (de_entity s')) = identity_matrix"
    by (simp add: s')
  have fail: "fst (dm_invert_symm ?X M_INIT singular_inertia) \<noteq> TM_SUCCESS ?X"
    by (simp add: example_inversion d)
  from r f d(1,4) fail tr inv pk show ?thesis
    by auto
qed

theorem compensation_gated_by_state_attribute_witness:
  "entity_is_PhysicalEntity externals_example \<and> unload_publishes_state externals_example
   \<and> callees_keep_ownership externals_example
   \<and> (\<exists>s' tr. receive_lag_compensation externals_example (lag_comp_example True False)
                 = Inr (s', tr)
        \<and> received_this_cycle (state_attr (de_entity (lag_comp_example True False)))
        \<and> Compensate 9 10 \<in> set tr
        \<and> map_option state (physical_data (de_entity s')) =
            Some ((state packing_example)\<lparr>pos := Vec3 17 28 39, time := 10\<rparr>))
   \<and> (\<exists>s' tr. receive_lag_compensation externals_example (lag_comp_example False False)
                 = Inr (s', tr)
        \<and> \<not> received_this_cycle (state_attr (de_entity (lag_comp_example False False)))
        \<and> Compensate 9 10 \<notin> set tr
        \<and> map_option state (physical_data (de_entity s')) = Some (state working_example))
   \<and> (\<exists>s' tr. send_lag_compensation externals_example (lag_comp_example True False)
                 = Inr (s', tr)
        \<and> tr = [Compensate 10 (21 / 2)]
        \<and> state (pe_packing_data (de_entity s')) =
            (state working_example)\<lparr>pos := Vec3 3 (9 / 2) 6, time := 21 / 2\<rparr>)"
proof -
  let ?X = externals_example
  note t = compensation_gated_by_state_attribute
    [OF example_entity_is_PhysicalEntity example_unload_publishes_state
      example_callees_keep_ownership]
  from example_receive_returns [of True False] obtain s1 tr1 where
    r1: "receive_lag_compensation ?X (lag_comp_example True False) = Inr (s1, tr1)"
    by blast
  have f1: "received_this_cycle (state_attr (de_entity (lag_comp_example True False)))"
    by (simp add: example_flags)
  from t [of "lag_comp_example True False"] r1 f1
  obtain t0 t1 where c: "Compensate t0 t1 \<in> set tr1"
    and "t0 = get_time ?X (de_entity (lag_comp_example True False))"
    and "t1 = get_scenario_time ?X"
    by blast
  then have 1: "Compensate 9 10 \<in> set tr1"
    by (simp add: example_times)
  from t [of "lag_comp_example True False"] r1 f1
  have "map_option state (physical_data (de_entity s1)) =
      Some (lag_comp_data
        (compensate ?X (get_time ?X (de_entity (lag_comp_example True False)))
           (get_scenario_time ?X)
           (load_and_differentiate ?X
              ((lag_comp_example True False)\<lparr>compensate_dt :=
                 double_sub ?X (get_scenario_time ?X)
                   (get_time ?X (de_entity (lag_comp_example True False)))\<rparr>))))"
    by blast
  then have moved: "map_option state (physical_data (de_entity s1)) =
      Some ((state packing_example)\<lparr>pos := Vec3 17 28 39, time := 10\<rparr>)"
    by (simp add: example_lag_comp_data example_times)
      (simp add: lag_comp_example_def de_entity_example_def packing_example_def)
  from example_receive_returns [of False False] obtain s2 tr2 where
    r2: "receive_lag_compensation ?X (lag_comp_example False False) = Inr (s2, tr2)"
    by blast
  have f2: "\<not> received_this_cycle (state_attr (de_entity (lag_comp_example False False)))"
    by (simp add: example_flags)
  from t [of "lag_comp_example False False"] r2 f2
  have "Compensate 9 10 \<notin> set tr2"
    and "map_option state (physical_data (de_entity s2)) =
      map_option state (physical_data (de_entity (lag_comp_example False False)))"
    by blast+
  then have 2: "Compensate 9 10 \<notin> set tr2
      \<and> map_option state (physical_data (de_entity s2)) = Some (state working_example)"
    by (simp add: example_working_state)
  from example_send_returns [of True False] obtain s3 tr3 where
    r3: "send_lag_compensation ?X (lag_comp_example True False) = Inr (s3, tr3)"
    by blast
  from t [of "lag_comp_example True False"] r3
  obtain ent where tr3: "tr3 = [Compensate (get_scenario_time ?X)
      (double_add ?X (get_scenario_time ?X) (get_lookahead ?X))]"
    and p: "pack_from_working_data (get_scenario_time ?X)
      (de_entity (lag_comp_example True False)) = Inr ent"
    and st: "state (pe_packing_data (de_entity s3)) =
      lag_comp_data
        (compensate ?X (get_scenario_time ?X)
           (double_add ?X (get_scenario_time ?X) (get_lookahead ?X))
           (load_and_differentiate ?X
              ((lag_comp_example True False)\<lparr>compensate_dt := get_lookahead ?X,
                 de_entity := ent\<rparr>)))"
    by blast
  have w: "physical_data (de_entity (lag_comp_example True False)) = Some working_example"
    by (simp add: lag_comp_example_def de_entity_example_def)
  from tr3 have 3: "tr3 = [Compensate 10 (21 / 2)]"
    by (simp add: example_times)
  have "state (pe_packing_data ent) = (state working_example)\<lparr>time := 10\<rparr>"
    by (subst pack_from_working_data_effect [OF p w]) (simp add: example_times)
  with st have sent: "state (pe_packing_data (de_entity s3)) =
      (state working_example)\<lparr>pos := Vec3 3 (9 / 2) 6, time := 21 / 2\<rparr>"
    by (simp add: example_lag_comp_data example_times working_example_def)
  from example_entity_is_PhysicalEntity example_unload_publishes_state
    example_callees_keep_ownership r1 f1 1 moved r2 f2 2 r3 3 sent
  show ?thesis by blast
qed

end
